theory Spec2Isabelle
  imports Complex_Main "HOL-Library.Sublist"
begin

section \<open>Values of the program\<close>

text \<open>
  The snapshot that the webhook returns is whatever \<^verbatim>\<open>resp.json()\<close> parses: nothing in
  \<^verbatim>\<open>server.py\<close> validates it. The model therefore works on parsed JSON values, and a
  Python \<^verbatim>\<open>dict\<close> is an association list whose keys are listed once, in insertion order.
  A float is the real number it denotes, or one of the three special values that
  \<^verbatim>\<open>json.loads\<close> accepts; the program only compares numbers with integer constants, and
  Python decides such a comparison on the exact values. A character of a text is a code
  point below 256.
\<close>

datatype pyfloat = Finite real | PosInf | NegInf | NaN

datatype json =
    JNull
  | JBool bool
  | JInt int
  | JFloat pyfloat
  | JStr string
  | JArr "json list"
  | JObj "(string \<times> json) list"

type_synonym dict = "(string \<times> json) list"

text \<open>
  Exceptions are values. Each constructor is an exception class together with the data
  its message is built from; the rendering of the message as text is not modelled.
\<close>

datatype error =
    UnknownRegion json "string list"
      \<comment> \<open>\<^verbatim>\<open>ValueError(f"Unknown region '{region}'. Known regions: ...")\<close>\<close>
  | UnknownTool string
      \<comment> \<open>\<^verbatim>\<open>ValueError(f"Unknown tool: {name}")\<close>\<close>
  | MissingApiKey
      \<comment> \<open>\<^verbatim>\<open>ValueError("GROQ_API_KEY environment variable is not set. ...")\<close>\<close>
  | KeyError string
      \<comment> \<open>\<^verbatim>\<open>d[k]\<close> on a dict without the key \<open>k\<close>\<close>
  | TypeError string
      \<comment> \<open>an operation applied to a value of the wrong type; the text names the operation\<close>
  | AttributeError string
      \<comment> \<open>a method looked up on a value that does not have it; the text names the method\<close>
  | RequestException string
      \<comment> \<open>\<^verbatim>\<open>requests.get\<close>, \<^verbatim>\<open>raise_for_status\<close> or \<^verbatim>\<open>resp.json\<close> failed\<close>
  | JSONDecodeError
      \<comment> \<open>\<^verbatim>\<open>json.loads\<close> on a text that is not JSON\<close>
  | APIError string
      \<comment> \<open>the completion service failed\<close>

subsection \<open>Python operations on values\<close>

fun truthy :: "json \<Rightarrow> bool" where
  "truthy JNull = False"
| "truthy (JBool b) = b"
| "truthy (JInt i) = (i \<noteq> 0)"
| "truthy (JFloat x) = (x \<noteq> Finite 0)"
| "truthy (JStr s) = (s \<noteq> [])"
| "truthy (JArr xs) = (xs \<noteq> [])"
| "truthy (JObj kv) = (kv \<noteq> [])"

definition py_or :: "json \<Rightarrow> json \<Rightarrow> json" where
  \<comment> \<open>\<^verbatim>\<open>a or b\<close>\<close>
  "py_or a b = (if truthy a then a else b)"

definition dict_get :: "dict \<Rightarrow> string \<Rightarrow> json" where
  \<comment> \<open>\<^verbatim>\<open>d.get(k)\<close>\<close>
  "dict_get d k = (case map_of d k of None \<Rightarrow> JNull | Some v \<Rightarrow> v)"

definition dict_get_default :: "dict \<Rightarrow> string \<Rightarrow> json \<Rightarrow> json" where
  \<comment> \<open>\<^verbatim>\<open>d.get(k, default)\<close>\<close>
  "dict_get_default d k dflt = (case map_of d k of None \<Rightarrow> dflt | Some v \<Rightarrow> v)"

definition getitem :: "dict \<Rightarrow> string \<Rightarrow> error + json" where
  \<comment> \<open>\<^verbatim>\<open>d[k]\<close>\<close>
  "getitem d k = (case map_of d k of None \<Rightarrow> Inl (KeyError k) | Some v \<Rightarrow> Inr v)"

definition setdefault :: "dict \<Rightarrow> string \<Rightarrow> json \<Rightarrow> dict" where
  \<comment> \<open>\<^verbatim>\<open>d.setdefault(k, v)\<close>: the dict afterwards\<close>
  "setdefault d k v = (case map_of d k of None \<Rightarrow> d @ [(k, v)] | Some _ \<Rightarrow> d)"

fun py_len :: "json \<Rightarrow> error + nat" where
  "py_len (JArr xs) = Inr (length xs)"
| "py_len (JStr s) = Inr (length s)"
| "py_len (JObj kv) = Inr (length kv)"
| "py_len _ = Inl (TypeError ''len'')"

fun py_iter :: "json \<Rightarrow> error + json list" where
  \<comment> \<open>the items that \<^verbatim>\<open>for f in x\<close> visits\<close>
  "py_iter (JArr xs) = Inr xs"
| "py_iter (JStr s) = Inr (map (\<lambda>c. JStr [c]) s)"
| "py_iter (JObj kv) = Inr (map (\<lambda>p. JStr (fst p)) kv)"
| "py_iter _ = Inl (TypeError ''iter'')"

fun as_number :: "json \<Rightarrow> pyfloat option" where
  "as_number (JBool b) = Some (Finite (if b then 1 else 0))"
| "as_number (JInt i) = Some (Finite (of_int i))"
| "as_number (JFloat x) = Some x"
| "as_number _ = None"

fun num_gt :: "pyfloat \<Rightarrow> int \<Rightarrow> bool" where
  "num_gt (Finite x) k = (x > of_int k)"
| "num_gt PosInf k = True"
| "num_gt NegInf k = False"
| "num_gt NaN k = False"

fun num_lt :: "pyfloat \<Rightarrow> int \<Rightarrow> bool" where
  "num_lt (Finite x) k = (x < of_int k)"
| "num_lt PosInf k = False"
| "num_lt NegInf k = True"
| "num_lt NaN k = False"

definition py_gt :: "json \<Rightarrow> int \<Rightarrow> error + bool" where
  \<comment> \<open>\<^verbatim>\<open>x > k\<close> for an integer constant \<open>k\<close>\<close>
  "py_gt x k = (case as_number x of None \<Rightarrow> Inl (TypeError ''>'') | Some n \<Rightarrow> Inr (num_gt n k))"

definition py_lt :: "json \<Rightarrow> int \<Rightarrow> error + bool" where
  \<comment> \<open>\<^verbatim>\<open>x < k\<close> for an integer constant \<open>k\<close>\<close>
  "py_lt x k = (case as_number x of None \<Rightarrow> Inl (TypeError ''<'') | Some n \<Rightarrow> Inr (num_lt n k))"

subsection \<open>Text\<close>

text \<open>
  \<^verbatim>\<open>str.strip()\<close> removes the white space of Unicode from both ends; below 256 that is
  the code points 9 to 13, 28 to 32, 133 (next line) and 160 (no-break space).
  \<^verbatim>\<open>str.upper()\<close> maps each character to its upper case in Unicode. Below 256 the
  letters \<open>a\<close> to \<open>z\<close> and the letters 224 to 254 other than the division sign 247 move
  down by 32; the micro sign 181 becomes the Greek capital mu 924, the sharp s 223
  becomes the two letters \<open>SS\<close>, and the y with diaeresis 255 becomes 376. Two of
  these lie beyond 255, so the upper case of a text is a list of code points.
\<close>

type_synonym codepoints = "nat list"

definition is_space :: "char \<Rightarrow> bool" where
  "is_space c = (c \<in> set [CHR 0x09, CHR 0x0A, CHR 0x0B, CHR 0x0C, CHR 0x0D,
                           CHR 0x1C, CHR 0x1D, CHR 0x1E, CHR 0x1F, CHR 0x20,
                           CHR 0x85, CHR 0xA0])"

definition strip :: "string \<Rightarrow> string" where
  "strip s = rev (dropWhile is_space (rev (dropWhile is_space s)))"

definition upper_char :: "char \<Rightarrow> codepoints" where
  "upper_char c =
     (let n = (of_char c :: nat) in
      if 97 \<le> n \<and> n \<le> 122 then [n - 32]
      else if n = 181 then [924]
      else if n = 223 then [83, 83]
      else if 224 \<le> n \<and> n \<le> 254 \<and> n \<noteq> 247 then [n - 32]
      else if n = 255 then [376]
      else [n])"

definition upper :: "string \<Rightarrow> codepoints" where
  "upper s = concat (map upper_char s)"

fun join :: "string \<Rightarrow> string list \<Rightarrow> string" where
  \<comment> \<open>\<^verbatim>\<open>sep.join(xs)\<close>\<close>
  "join sep [] = []"
| "join sep [x] = x"
| "join sep (x # y # ys) = x @ sep @ join sep (y # ys)"

section \<open>server.py\<close>

subsection \<open>Types\<close>

text \<open>
  The result shapes that the tools build as dict literals. The field names carry a prefix
  for the shape (\<open>a_\<close>, \<open>ar_\<close>, \<open>lr_\<close>), since the shapes share keys.
\<close>

record Alert =
  a_flight :: json
  a_reason :: string
  a_severity :: string

record AlertResult =
  ar_region :: json
  ar_snapshot_time :: json
  ar_fetched_at_iso :: json
  ar_alert_count :: int
  ar_alerts :: "Alert list"

record FlightLookupResult =
  lr_region :: json
  lr_snapshot_time :: json
  lr_fetched_at_iso :: json
  lr_flight :: "json option"
  lr_message :: string

text \<open>
  The declared shapes \<^verbatim>\<open>Flight\<close> (a \<^verbatim>\<open>TypedDict\<close> with \<^verbatim>\<open>total=False\<close>: every key may
  be absent) and \<^verbatim>\<open>Snapshot\<close> (every key required), as predicates on values. An
  \<^verbatim>\<open>int\<close> is accepted where a \<^verbatim>\<open>float\<close> is declared.
\<close>

fun is_str :: "json \<Rightarrow> bool" where
  "is_str (JStr _) = True"
| "is_str _ = False"

fun is_int :: "json \<Rightarrow> bool" where
  "is_int (JInt _) = True"
| "is_int _ = False"

fun is_float :: "json \<Rightarrow> bool" where
  "is_float (JInt _) = True"
| "is_float (JFloat _) = True"
| "is_float _ = False"

fun is_bool :: "json \<Rightarrow> bool" where
  "is_bool (JBool _) = True"
| "is_bool _ = False"

fun is_optional :: "(json \<Rightarrow> bool) \<Rightarrow> json \<Rightarrow> bool" where
  "is_optional P JNull = True"
| "is_optional P v = P v"

definition optional_key :: "dict \<Rightarrow> string \<Rightarrow> (json \<Rightarrow> bool) \<Rightarrow> bool" where
  "optional_key d k P = (case map_of d k of None \<Rightarrow> True | Some v \<Rightarrow> P v)"

definition required_key :: "dict \<Rightarrow> string \<Rightarrow> (json \<Rightarrow> bool) \<Rightarrow> bool" where
  "required_key d k P = (case map_of d k of None \<Rightarrow> False | Some v \<Rightarrow> P v)"

fun is_Flight :: "json \<Rightarrow> bool" where
  "is_Flight (JObj d) =
     (optional_key d ''icao24'' is_str \<and>
      optional_key d ''callsign'' (is_optional is_str) \<and>
      optional_key d ''origin_country'' is_str \<and>
      optional_key d ''time_position'' (is_optional is_int) \<and>
      optional_key d ''last_contact'' (is_optional is_int) \<and>
      optional_key d ''longitude'' (is_optional is_float) \<and>
      optional_key d ''latitude'' (is_optional is_float) \<and>
      optional_key d ''baro_altitude'' (is_optional is_float) \<and>
      optional_key d ''on_ground'' is_bool \<and>
      optional_key d ''velocity'' (is_optional is_float) \<and>
      optional_key d ''true_track'' (is_optional is_float) \<and>
      optional_key d ''vertical_rate'' (is_optional is_float) \<and>
      optional_key d ''geo_altitude'' (is_optional is_float) \<and>
      optional_key d ''squawk'' (is_optional is_str) \<and>
      optional_key d ''spi'' is_bool \<and>
      optional_key d ''position_source'' (is_optional is_int))"
| "is_Flight _ = False"

fun is_Flight_list :: "json \<Rightarrow> bool" where
  "is_Flight_list (JArr fs) = list_all is_Flight fs"
| "is_Flight_list _ = False"

definition is_Snapshot :: "dict \<Rightarrow> bool" where
  "is_Snapshot d =
     (required_key d ''region'' is_str \<and>
      required_key d ''snapshot_time'' is_int \<and>
      required_key d ''fetched_at_iso'' is_str \<and>
      required_key d ''flight_count'' is_int \<and>
      required_key d ''flights'' is_Flight_list)"

subsection \<open>The snapshot fetcher\<close>

text \<open>
  The outcome of \<^verbatim>\<open>requests.get(url, timeout=10)\<close>: the call raises, or it answers with
  a status code and a body; the body is the value \<^verbatim>\<open>resp.json()\<close> parses, or \<open>None\<close> when
  it is not JSON.
\<close>

datatype http_result = ConnectionFailed | Response nat "json option"

definition REGION_WEBHOOKS :: "(string \<Rightarrow> string option) \<Rightarrow> (string \<times> string) list" where
  \<comment> \<open>the argument is \<^verbatim>\<open>os.getenv\<close>\<close>
  "REGION_WEBHOOKS getenv =
     [(''region1'', case getenv ''REGION1_WEBHOOK'' of
                      None \<Rightarrow> ''http://localhost:5678/webhook/latest-region1''
                    | Some u \<Rightarrow> u)]"

definition raise_for_status :: "nat \<Rightarrow> bool" where
  \<comment> \<open>whether \<^verbatim>\<open>resp.raise_for_status()\<close> raises\<close>
  "raise_for_status status = (400 \<le> status \<and> status < 600)"

definition backfill :: "string \<Rightarrow> json \<Rightarrow> error + dict" where
  \<comment> \<open>lines 77 to 81: the two \<^verbatim>\<open>setdefault\<close> calls on the parsed body\<close>
  "backfill region data =
     (case data of
        JObj d \<Rightarrow>
          (let d1 = setdefault d ''region'' (JStr region) in
           case py_len (dict_get_default d1 ''flights'' (JArr [])) of
             Inl e \<Rightarrow> Inl e
           | Inr n \<Rightarrow> Inr (setdefault d1 ''flight_count'' (JInt (int n))))
      | _ \<Rightarrow> Inl (AttributeError ''setdefault''))"

definition fetch_snapshot ::
  "(string \<times> string) list \<Rightarrow> (string \<Rightarrow> http_result) \<Rightarrow> string \<Rightarrow> error + dict" where
  \<comment> \<open>\<^verbatim>\<open>_fetch_snapshot\<close>; the first two arguments are the module's table of webhooks and
      the behaviour of \<^verbatim>\<open>requests.get\<close> at the time of the call\<close>
  "fetch_snapshot webhooks get region =
     (case map_of webhooks region of
        None \<Rightarrow> Inl (UnknownRegion (JStr region) (map fst webhooks))
      | Some url \<Rightarrow>
          (case get url of
             ConnectionFailed \<Rightarrow> Inl (RequestException ''get'')
           | Response status body \<Rightarrow>
               if raise_for_status status then Inl (RequestException ''raise_for_status'')
               else (case body of
                       None \<Rightarrow> Inl (RequestException ''json'')
                     | Some data \<Rightarrow> backfill region data)))"

subsection \<open>Tools\<close>

definition flights_list_region_snapshot ::
  "(string \<times> string) list \<Rightarrow> (string \<Rightarrow> http_result) \<Rightarrow> string \<Rightarrow> error + dict" where
  "flights_list_region_snapshot webhooks get region = fetch_snapshot webhooks get region"

definition stored_callsign :: "json \<Rightarrow> error + codepoints" where
  \<comment> \<open>line 107: \<^verbatim>\<open>(f.get("callsign") or "").strip().upper()\<close>\<close>
  "stored_callsign f =
     (case f of
        JObj d \<Rightarrow>
          (case py_or (dict_get d ''callsign'') (JStr []) of
             JStr s \<Rightarrow> Inr (upper (strip s))
           | _ \<Rightarrow> Inl (AttributeError ''strip''))
      | _ \<Rightarrow> Inl (AttributeError ''get''))"

fun find_flight :: "codepoints \<Rightarrow> json list \<Rightarrow> error + json option" where
  \<comment> \<open>lines 105 to 110: the loop that stops at the first match\<close>
  "find_flight target [] = Inr None"
| "find_flight target (f # fs) =
     (case stored_callsign f of
        Inl e \<Rightarrow> Inl e
      | Inr cs \<Rightarrow> if cs = target then Inr (Some f) else find_flight target fs)"

definition lookup_result :: "dict \<Rightarrow> json option \<Rightarrow> string \<Rightarrow> error + FlightLookupResult" where
  \<comment> \<open>lines 112 to 127: either dict literal; its items are evaluated in the order written\<close>
  "lookup_result snapshot found msg =
     (case getitem snapshot ''region'' of
        Inl e \<Rightarrow> Inl e
      | Inr r \<Rightarrow>
          (case getitem snapshot ''snapshot_time'' of
             Inl e \<Rightarrow> Inl e
           | Inr t \<Rightarrow>
               (case getitem snapshot ''fetched_at_iso'' of
                  Inl e \<Rightarrow> Inl e
                | Inr i \<Rightarrow>
                    Inr \<lparr>lr_region = r, lr_snapshot_time = t, lr_fetched_at_iso = i,
                         lr_flight = found, lr_message = msg\<rparr>)))"

definition lookup_in :: "dict \<Rightarrow> string \<Rightarrow> string \<Rightarrow> error + FlightLookupResult" where
  \<comment> \<open>lines 103 to 127: the body of \<^verbatim>\<open>flights_get_by_callsign\<close> after the fetch\<close>
  "lookup_in snapshot callsign region =
     (let target = upper (strip callsign) in
      case py_iter (dict_get_default snapshot ''flights'' (JArr [])) of
        Inl e \<Rightarrow> Inl e
      | Inr fs \<Rightarrow>
          (case find_flight target fs of
             Inl e \<Rightarrow> Inl e
           | Inr None \<Rightarrow>
               lookup_result snapshot None
                 (''No flight with callsign '' @ [CHR 0x27] @ callsign @ [CHR 0x27]
                    @ '' found in '' @ region)
           | Inr (Some f) \<Rightarrow>
               lookup_result snapshot (Some f)
                 (''Found flight '' @ callsign @ '' in '' @ region)))"

definition flights_get_by_callsign ::
  "(string \<times> string) list \<Rightarrow> (string \<Rightarrow> http_result) \<Rightarrow> string \<Rightarrow> string
     \<Rightarrow> error + FlightLookupResult" where
  "flights_get_by_callsign webhooks get callsign region =
     (case fetch_snapshot webhooks get region of
        Inl e \<Rightarrow> Inl e
      | Inr snapshot \<Rightarrow> lookup_in snapshot callsign region)"

text \<open>
  One pass of the loop of \<^verbatim>\<open>alerts_list_active\<close> (lines 143 to 168). The local variables
  \<^verbatim>\<open>reasons\<close> and \<^verbatim>\<open>severity\<close> are threaded through the two rule blocks as a pair; the
  pass yields the alert it appends, if any. The \<^verbatim>\<open>and\<close> of line 151 evaluates its second
  comparison only when the first is true.
\<close>

definition low_speed_rule :: "json \<Rightarrow> json \<Rightarrow> string list \<times> string \<Rightarrow> error + string list \<times> string" where
  "low_speed_rule alt v st =
     (case py_gt alt 8000 of
        Inl e \<Rightarrow> Inl e
      | Inr False \<Rightarrow> Inr st
      | Inr True \<Rightarrow>
          (case py_lt v 100 of
             Inl e \<Rightarrow> Inl e
           | Inr False \<Rightarrow> Inr st
           | Inr True \<Rightarrow>
               Inr (fst st @ [''Unusually low speed at high altitude''], ''warning'')))"

definition vertical_rate_rule :: "json \<Rightarrow> string list \<times> string \<Rightarrow> error + string list \<times> string" where
  "vertical_rate_rule vr st =
     (case py_lt vr (- 20) of
        Inl e \<Rightarrow> Inl e
      | Inr True \<Rightarrow> Inr (fst st @ [''Very high descent rate''], ''warning'')
      | Inr False \<Rightarrow>
          (case py_gt vr 20 of
             Inl e \<Rightarrow> Inl e
           | Inr True \<Rightarrow> Inr (fst st @ [''Very high climb rate''], ''warning'')
           | Inr False \<Rightarrow> Inr st))"

definition flight_alert :: "json \<Rightarrow> error + Alert option" where
  "flight_alert f =
     (case f of
        JObj d \<Rightarrow>
          (let v = py_or (dict_get d ''velocity'') (JFloat (Finite 0));
               alt = py_or (py_or (dict_get d ''geo_altitude'') (dict_get d ''baro_altitude''))
                           (JFloat (Finite 0));
               vr = py_or (dict_get d ''vertical_rate'') (JFloat (Finite 0))
           in case low_speed_rule alt v ([], ''info'') of
                Inl e \<Rightarrow> Inl e
              | Inr st1 \<Rightarrow>
                  (case vertical_rate_rule vr st1 of
                     Inl e \<Rightarrow> Inl e
                   | Inr (reasons, sev) \<Rightarrow>
                       if reasons \<noteq> []
                       then Inr (Some \<lparr>a_flight = f, a_reason = join ''; '' reasons,
                                        a_severity = sev\<rparr>)
                       else Inr None))
      | _ \<Rightarrow> Inl (AttributeError ''get''))"

fun collect_alerts :: "json list \<Rightarrow> Alert list \<Rightarrow> error + Alert list" where
  \<comment> \<open>the loop of line 142, with the list \<^verbatim>\<open>alerts\<close> built so far\<close>
  "collect_alerts [] acc = Inr acc"
| "collect_alerts (f # fs) acc =
     (case flight_alert f of
        Inl e \<Rightarrow> Inl e
      | Inr None \<Rightarrow> collect_alerts fs acc
      | Inr (Some a) \<Rightarrow> collect_alerts fs (acc @ [a]))"

definition alerts_in :: "dict \<Rightarrow> error + AlertResult" where
  \<comment> \<open>lines 140 to 176: the body of \<^verbatim>\<open>alerts_list_active\<close> after the fetch\<close>
  "alerts_in snapshot =
     (case py_iter (dict_get_default snapshot ''flights'' (JArr [])) of
        Inl e \<Rightarrow> Inl e
      | Inr fs \<Rightarrow>
          (case collect_alerts fs [] of
             Inl e \<Rightarrow> Inl e
           | Inr als \<Rightarrow>
               (case getitem snapshot ''region'' of
                  Inl e \<Rightarrow> Inl e
                | Inr r \<Rightarrow>
                    (case getitem snapshot ''snapshot_time'' of
                       Inl e \<Rightarrow> Inl e
                     | Inr t \<Rightarrow>
                         (case getitem snapshot ''fetched_at_iso'' of
                            Inl e \<Rightarrow> Inl e
                          | Inr i \<Rightarrow>
                              Inr \<lparr>ar_region = r, ar_snapshot_time = t,
                                   ar_fetched_at_iso = i,
                                   ar_alert_count = int (length als), ar_alerts = als\<rparr>)))))"

definition alerts_list_active ::
  "(string \<times> string) list \<Rightarrow> (string \<Rightarrow> http_result) \<Rightarrow> string \<Rightarrow> error + AlertResult" where
  "alerts_list_active webhooks get region =
     (case fetch_snapshot webhooks get region of
        Inl e \<Rightarrow> Inl e
      | Inr snapshot \<Rightarrow> alerts_in snapshot)"

section \<open>agents.py\<close>

subsection \<open>The tool registry\<close>

record tool_schema =
  schema_type :: string
  schema_name :: string
  schema_description :: string
  schema_parameters :: json

definition MODEL_NAME :: string where
  "MODEL_NAME = ''llama-3.3-70b-versatile''"

definition TOOLS :: "tool_schema list" where
  "TOOLS =
     [\<lparr>schema_type = ''function'',
       schema_name = ''flights_list_region_snapshot'',
       schema_description = ''Get the latest cached snapshot of all flights for a region.'',
       schema_parameters =
         JObj [(''type'', JStr ''object''),
               (''properties'',
                  JObj [(''region'',
                           JObj [(''type'', JStr ''string''),
                                 (''description'', JStr ''Region identifier, e.g. 'region1'.''),
                                 (''default'', JStr ''region1'')])]),
               (''required'', JArr [])]\<rparr>,
      \<lparr>schema_type = ''function'',
       schema_name = ''flights_get_by_callsign'',
       schema_description = ''Look up a single flight by callsign in the latest snapshot.'',
       schema_parameters =
         JObj [(''type'', JStr ''object''),
               (''properties'',
                  JObj [(''callsign'',
                           JObj [(''type'', JStr ''string''),
                                 (''description'', JStr ''Flight callsign, e.g. 'PIA293'.'')]),
                        (''region'',
                           JObj [(''type'', JStr ''string''),
                                 (''description'', JStr ''Region identifier, default 'region1'.''),
                                 (''default'', JStr ''region1'')])]),
               (''required'', JArr [JStr ''callsign''])]\<rparr>,
      \<lparr>schema_type = ''function'',
       schema_name = ''alerts_list_active'',
       schema_description =
         ''List flights in a region that look anomalous (low speed at cruise altitude, very high climb/descent rate).'',
       schema_parameters =
         JObj [(''type'', JStr ''object''),
               (''properties'',
                  JObj [(''region'',
                           JObj [(''type'', JStr ''string''),
                                 (''description'', JStr ''Region identifier, default 'region1'.''),
                                 (''default'', JStr ''region1'')])]),
               (''required'', JArr [])]\<rparr>]"

subsection \<open>Messages, requests and the world outside\<close>

text \<open>
  The text \<^verbatim>\<open>fn.arguments\<close> of a tool call is known by what \<^verbatim>\<open>json.loads\<close> makes of it:
  it is absent or empty, or it is not JSON, or it parses to a value.
\<close>

datatype arguments_text = ArgsEmpty | ArgsMalformed | ArgsJSON json

record tool_call =
  call_id :: string
  fn_name :: string
  fn_arguments :: arguments_text

record assistant_message =
  msg_content :: "string option"
  msg_tool_calls :: "tool_call list option"

datatype tool_payload =
    SnapshotPayload dict
  | LookupPayload FlightLookupResult
  | AlertsPayload AlertResult

text \<open>
  The value that \<^verbatim>\<open>json.dumps\<close> serialises into a tool message: what the tool returned,
  or the dict \<^verbatim>\<open>{"error": text}\<close>, whose text is a literal of the program or the \<^verbatim>\<open>str\<close> of
  the exception caught.
\<close>

datatype error_text = Literal string | StrOf error

datatype tool_result = Payload tool_payload | ErrorDict error_text

datatype chat_message =
    RoleMessage string string
      \<comment> \<open>\<^verbatim>\<open>{"role": r, "content": c}\<close>\<close>
  | AssistantMessage assistant_message
      \<comment> \<open>the message object of the first completion\<close>
  | ToolMessage string string tool_result
      \<comment> \<open>\<^verbatim>\<open>{"role": "tool", "tool_call_id": i, "name": n, "content": json.dumps(r)}\<close>\<close>

record request =
  req_model :: string
  req_messages :: "chat_message list"
  req_tools :: "tool_schema list option"
  req_tool_choice :: "string option"

text \<open>
  The world outside the program: the environment variables, the webhook as it answers
  at the time of the \<open>n\<close>-th tool dispatch, and the completion service, whose answer
  (\<^verbatim>\<open>choices[0].message\<close>, or an exception) may depend on all the requests it has seen.
\<close>

record env =
  os_getenv :: "string \<Rightarrow> string option"
  requests_get :: "nat \<Rightarrow> string \<Rightarrow> http_result"
  chat_completions_create :: "request list \<Rightarrow> request \<Rightarrow> error + assistant_message"

text \<open>
  The state that a run changes: whether the global \<^verbatim>\<open>_client\<close> is set, the requests sent
  to the completion service so far, and the number of tool dispatches so far.
\<close>

record state =
  client_created :: bool
  requests_sent :: "request list"
  dispatches :: nat

definition client :: "env \<Rightarrow> state \<Rightarrow> (error + unit) \<times> state" where
  \<comment> \<open>\<^verbatim>\<open>client()\<close> with \<^verbatim>\<open>get_groq_client()\<close>\<close>
  "client E s =
     (if client_created s then (Inr (), s)
      else (case os_getenv E ''GROQ_API_KEY'' of
              None \<Rightarrow> (Inl MissingApiKey, s)
            | Some api_key \<Rightarrow>
                if api_key = [] then (Inl MissingApiKey, s)
                else (Inr (), s\<lparr>client_created := True\<rparr>)))"

definition create :: "env \<Rightarrow> request \<Rightarrow> state \<Rightarrow> (error + assistant_message) \<times> state" where
  \<comment> \<open>\<^verbatim>\<open>client().chat.completions.create(...)\<close> followed by \<^verbatim>\<open>.choices[0].message\<close>\<close>
  "create E req s =
     (case client E s of
        (Inl e, s1) \<Rightarrow> (Inl e, s1)
      | (Inr _, s1) \<Rightarrow>
          (chat_completions_create E (requests_sent s1) req,
           s1\<lparr>requests_sent := requests_sent s1 @ [req]\<rparr>))"

subsection \<open>Dispatch\<close>

text \<open>
  \<^verbatim>\<open>f(**arguments)\<close>: the value must be a mapping, each of its keys a parameter of \<open>f\<close>,
  and each parameter without a default among its keys.
\<close>

definition bind_keywords :: "string list \<Rightarrow> string list \<Rightarrow> json \<Rightarrow> error + dict" where
  "bind_keywords params required arguments =
     (case arguments of
        JObj kv \<Rightarrow>
          if \<not> list_all (\<lambda>k. k \<in> set params) (map fst kv)
          then Inl (TypeError ''unexpected keyword argument'')
          else if \<not> list_all (\<lambda>k. k \<in> set (map fst kv)) required
          then Inl (TypeError ''missing required argument'')
          else Inr kv
      | _ \<Rightarrow> Inl (TypeError ''argument after ** must be a mapping''))"

text \<open>
  The tools are written for a \<^verbatim>\<open>region\<close> and a \<^verbatim>\<open>callsign\<close> that are strings, and nothing
  checks that the arguments of the model are. A region that is not a string fails the
  test of line 68 (or cannot be hashed); a callsign that is not a string has no method
  \<^verbatim>\<open>strip\<close>, which line 103 finds out after the snapshot was fetched.
\<close>

definition with_region ::
  "(string \<times> string) list \<Rightarrow> json \<Rightarrow> (string \<Rightarrow> error + 'a) \<Rightarrow> error + 'a" where
  "with_region webhooks region_value body =
     (case region_value of
        JStr r \<Rightarrow> body r
      | JArr _ \<Rightarrow> Inl (TypeError ''unhashable type'')
      | JObj _ \<Rightarrow> Inl (TypeError ''unhashable type'')
      | v \<Rightarrow> Inl (UnknownRegion v (map fst webhooks)))"

definition execute_tool :: "env \<Rightarrow> nat \<Rightarrow> string \<Rightarrow> json \<Rightarrow> error + tool_payload" where
  \<comment> \<open>the second argument is the number of dispatches before this one\<close>
  "execute_tool E n name arguments =
     (let webhooks = REGION_WEBHOOKS (os_getenv E); get = requests_get E n in
      if name = ''flights_list_region_snapshot'' then
        (case bind_keywords [''region''] [] arguments of
           Inl e \<Rightarrow> Inl e
         | Inr kv \<Rightarrow>
             with_region webhooks (dict_get_default kv ''region'' (JStr ''region1''))
               (\<lambda>r. map_sum id SnapshotPayload (flights_list_region_snapshot webhooks get r)))
      else if name = ''flights_get_by_callsign'' then
        (case bind_keywords [''callsign'', ''region''] [''callsign''] arguments of
           Inl e \<Rightarrow> Inl e
         | Inr kv \<Rightarrow>
             with_region webhooks (dict_get_default kv ''region'' (JStr ''region1''))
               (\<lambda>r. case dict_get kv ''callsign'' of
                       JStr c \<Rightarrow> map_sum id LookupPayload (flights_get_by_callsign webhooks get c r)
                     | _ \<Rightarrow> (case fetch_snapshot webhooks get r of
                               Inl e \<Rightarrow> Inl e
                             | Inr _ \<Rightarrow> Inl (AttributeError ''strip''))))
      else if name = ''alerts_list_active'' then
        (case bind_keywords [''region''] [] arguments of
           Inl e \<Rightarrow> Inl e
         | Inr kv \<Rightarrow>
             with_region webhooks (dict_get_default kv ''region'' (JStr ''region1''))
               (\<lambda>r. map_sum id AlertsPayload (alerts_list_active webhooks get r)))
      else Inl (UnknownTool name))"

subsection \<open>The tool-calling loop\<close>

definition json_loads :: "arguments_text \<Rightarrow> error + json" where
  \<comment> \<open>\<^verbatim>\<open>json.loads(fn.arguments or "{}")\<close>\<close>
  "json_loads text =
     (case text of
        ArgsEmpty \<Rightarrow> Inr (JObj [])
      | ArgsMalformed \<Rightarrow> Inl JSONDecodeError
      | ArgsJSON v \<Rightarrow> Inr v)"

definition allowed :: "string list option \<Rightarrow> string \<Rightarrow> bool" where
  \<comment> \<open>the negation of the test of line 167\<close>
  "allowed allowed_tools tool_name =
     (case allowed_tools of None \<Rightarrow> True | Some names \<Rightarrow> tool_name \<in> set names)"

definition tool_result_of ::
  "env \<Rightarrow> string list option \<Rightarrow> string \<Rightarrow> json \<Rightarrow> state \<Rightarrow> tool_result \<times> state" where
  \<comment> \<open>lines 167 to 176\<close>
  "tool_result_of E allowed_tools tool_name args s =
     (if \<not> allowed allowed_tools tool_name
      then (ErrorDict (Literal (''Tool '' @ tool_name @ '' is not allowed for this agent.'')), s)
      else (case execute_tool E (dispatches s) tool_name args of
              Inl e \<Rightarrow> (ErrorDict (StrOf e), s\<lparr>dispatches := Suc (dispatches s)\<rparr>)
            | Inr tool_payload \<Rightarrow> (Payload tool_payload, s\<lparr>dispatches := Suc (dispatches s)\<rparr>)))"

fun run_tool_calls ::
  "env \<Rightarrow> string list option \<Rightarrow> tool_call list \<Rightarrow> chat_message list \<Rightarrow> state
     \<Rightarrow> (error + chat_message list) \<times> state" where
  \<comment> \<open>the loop of lines 162 to 185, with the list \<^verbatim>\<open>messages\<close> as it grows\<close>
  "run_tool_calls E allowed_tools [] messages s = (Inr messages, s)"
| "run_tool_calls E allowed_tools (call # calls) messages s =
     (case json_loads (fn_arguments call) of
        Inl e \<Rightarrow> (Inl e, s)
      | Inr args \<Rightarrow>
          (case tool_result_of E allowed_tools (fn_name call) args s of
             (tool_result, s1) \<Rightarrow>
               run_tool_calls E allowed_tools calls
                 (messages @ [ToolMessage (call_id call) (fn_name call) tool_result]) s1))"

definition content_or_empty :: "assistant_message \<Rightarrow> string" where
  \<comment> \<open>\<^verbatim>\<open>message.content or ""\<close>\<close>
  "content_or_empty m = (case msg_content m of None \<Rightarrow> [] | Some c \<Rightarrow> c)"

definition first_request :: "string \<Rightarrow> string \<Rightarrow> string list option \<Rightarrow> request" where
  \<comment> \<open>lines 129 to 150: the request of the first completion call\<close>
  "first_request system_prompt user_query allowed_tools =
     \<lparr>req_model = MODEL_NAME,
      req_messages = [RoleMessage ''system'' system_prompt, RoleMessage ''user'' user_query],
      req_tools = Some (case allowed_tools of
                          None \<Rightarrow> TOOLS
                        | Some names \<Rightarrow> filter (\<lambda>t. schema_name t \<in> set names) TOOLS),
      req_tool_choice = Some ''auto''\<rparr>"

definition run_tool_calling_chat ::
  "env \<Rightarrow> string \<Rightarrow> string \<Rightarrow> string list option \<Rightarrow> state \<Rightarrow> (error + string) \<times> state" where
  "run_tool_calling_chat E system_prompt user_query allowed_tools s =
     (let req = first_request system_prompt user_query allowed_tools in
      case create E req s of
        (Inl e, s1) \<Rightarrow> (Inl e, s1)
      | (Inr message, s1) \<Rightarrow>
          (let messages = req_messages req @ [AssistantMessage message] in
           case msg_tool_calls message of
             None \<Rightarrow> (Inr (content_or_empty message), s1)
           | Some [] \<Rightarrow> (Inr (content_or_empty message), s1)
           | Some (call # calls) \<Rightarrow>
               (case run_tool_calls E allowed_tools (call # calls) messages s1 of
                  (Inl e, s2) \<Rightarrow> (Inl e, s2)
                | (Inr messages2, s2) \<Rightarrow>
                    (case create E \<lparr>req_model = MODEL_NAME, req_messages = messages2,
                                     req_tools = None, req_tool_choice = None\<rparr> s2 of
                       (Inl e, s3) \<Rightarrow> (Inl e, s3)
                     | (Inr final, s3) \<Rightarrow> (Inr (content_or_empty final), s3)))))"

subsection \<open>Concrete agents\<close>

definition traveler_system :: string where
  \<comment> \<open>the local \<^verbatim>\<open>system\<close> of \<^verbatim>\<open>traveler_agent\<close>\<close>
  "traveler_system =
     ''You are a traveler support assistant. '' @
     ''Help passengers understand where their flight is, '' @
     ''its altitude, speed, and whether anything looks unusual. '' @
     ''Use the flights_get_by_callsign tool when needed.''"

definition traveler_agent :: "env \<Rightarrow> string \<Rightarrow> state \<Rightarrow> (error + string) \<times> state" where
  "traveler_agent E question s =
     run_tool_calling_chat E traveler_system question (Some [''flights_get_by_callsign'']) s"

definition ops_system :: string where
  \<comment> \<open>the local \<^verbatim>\<open>system\<close> of \<^verbatim>\<open>ops_agent\<close>\<close>
  "ops_system =
     ''You are an airline operations specialist monitoring airspace safety. '' @
     ''Use flights_list_region_snapshot and alerts_list_active to analyze '' @
     ''current traffic, highlight anomalies, and propose actions.''"

definition ops_agent :: "env \<Rightarrow> string \<Rightarrow> state \<Rightarrow> (error + string) \<times> state" where
  "ops_agent E question s =
     run_tool_calling_chat E ops_system question
       (Some [''flights_list_region_snapshot'', ''alerts_list_active'']) s"

definition base_question :: "string \<Rightarrow> string \<Rightarrow> string" where
  \<comment> \<open>lines 245 to 248\<close>
  "base_question callsign passenger_question =
     ''My flight '' @ callsign @ '' is in region1. '' @ passenger_question @ '' '' @
     ''Please use tools to check this specific flight.''"

definition ops_prompt :: "string \<Rightarrow> string" where
  \<comment> \<open>lines 254 to 258\<close>
  "ops_prompt callsign =
     ''Consider flight '' @ callsign @ '' in region1. '' @
     ''Give a short situation report focusing on nearby anomalies '' @
     ''and anything that could worry the passenger.''"

definition synthesis_request :: "string \<Rightarrow> string \<Rightarrow> string \<Rightarrow> string \<Rightarrow> request" where
  \<comment> \<open>lines 262 to 286: the request of the final completion call\<close>
  "synthesis_request callsign passenger_question traveler_reply ops_reply =
     \<lparr>req_model = MODEL_NAME,
      req_messages =
        [RoleMessage ''system''
           (''You are a coordinator between a traveler support agent and '' @
            ''an operations agent. You will see both of their messages and '' @
            ''must produce ONE clear answer for the passenger. '' @
            ''Reassure them when appropriate, but do not hide serious issues.''),
         RoleMessage ''user''
           (''Passenger question: '' @ passenger_question @ [CHR 0x0A] @
            ''Flight: '' @ callsign @ [CHR 0x0A, CHR 0x0A] @
            ''Traveler agent said:'' @ [CHR 0x0A] @ traveler_reply @ [CHR 0x0A, CHR 0x0A] @
            ''Ops agent said:'' @ [CHR 0x0A] @ ops_reply @ [CHR 0x0A, CHR 0x0A] @
            ''Now give a final answer for the passenger.'')],
      req_tools = None,
      req_tool_choice = None\<rparr>"

definition traveler_with_ops ::
  "env \<Rightarrow> string \<Rightarrow> string \<Rightarrow> state \<Rightarrow> (error + string) \<times> state" where
  "traveler_with_ops E callsign passenger_question s =
     (case traveler_agent E (base_question callsign passenger_question) s of
        (Inl e, s1) \<Rightarrow> (Inl e, s1)
      | (Inr traveler_reply, s1) \<Rightarrow>
          (case ops_agent E (ops_prompt callsign) s1 of
             (Inl e, s2) \<Rightarrow> (Inl e, s2)
           | (Inr ops_reply, s2) \<Rightarrow>
               (case create E (synthesis_request callsign passenger_question
                                 traveler_reply ops_reply) s2 of
                  (Inl e, s3) \<Rightarrow> (Inl e, s3)
                | (Inr final, s3) \<Rightarrow> (Inr (content_or_empty final), s3))))"

section \<open>Notions used to state the properties\<close>

definition has_number :: "dict \<Rightarrow> string \<Rightarrow> real \<Rightarrow> bool" where
  \<comment> \<open>the key holds a number of value \<open>x\<close>\<close>
  "has_number d k x = (as_number (dict_get d k) = Some (Finite x))"

definition flight_altitude_is :: "dict \<Rightarrow> real \<Rightarrow> bool" where
  \<comment> \<open>the flight's altitude: the geometric one, or the barometric one of a flight that
      has no geometric altitude\<close>
  "flight_altitude_is d x =
     (has_number d ''geo_altitude'' x \<or>
      (dict_get d ''geo_altitude'' = JNull \<and> has_number d ''baro_altitude'' x))"

definition flight_count_matches :: "dict \<Rightarrow> bool" where
  \<comment> \<open>\<^verbatim>\<open>S.flight_count == len(S.flights)\<close>; a snapshot without the key \<^verbatim>\<open>flights\<close> has the
      flights that the tools read from it, none\<close>
  "flight_count_matches snapshot =
     (case py_len (dict_get_default snapshot ''flights'' (JArr [])) of
        Inl _ \<Rightarrow> False
      | Inr n \<Rightarrow> map_of snapshot ''flight_count'' = Some (JInt (int n)))"

definition blank_callsign :: "json \<Rightarrow> bool" where
  \<comment> \<open>a flight whose callsign is missing, null or made of white space only\<close>
  "blank_callsign f =
     (case f of
        JObj d \<Rightarrow>
          (case map_of d ''callsign'' of
             None \<Rightarrow> True
           | Some JNull \<Rightarrow> True
           | Some (JStr s) \<Rightarrow> strip s = []
           | Some _ \<Rightarrow> False)
      | _ \<Rightarrow> False)"

definition requests_tools :: "env \<Rightarrow> request \<Rightarrow> state \<Rightarrow> bool" where
  \<comment> \<open>the completion service answers this request, sent in this state, with tool calls\<close>
  "requests_tools E req s =
     (case fst (create E req s) of
        Inl _ \<Rightarrow> False
      | Inr message \<Rightarrow>
          (case msg_tool_calls message of
             None \<Rightarrow> False
           | Some [] \<Rightarrow> False
           | Some (call # calls) \<Rightarrow> True))"

definition tool_messages :: "tool_call list \<Rightarrow> tool_result list \<Rightarrow> chat_message list" where
  \<comment> \<open>one tool message for each call, in the order of the calls, with the id of its call\<close>
  "tool_messages calls results =
     map (\<lambda>(call, r). ToolMessage (call_id call) (fn_name call) r) (zip calls results)"

definition dispatched_before :: "string list option \<Rightarrow> tool_call list \<Rightarrow> nat \<Rightarrow> nat" where
  \<comment> \<open>how many of the first \<open>i\<close> calls name a tool that the agent may use\<close>
  "dispatched_before allowed_tools calls i =
     length (filter (\<lambda>c. allowed allowed_tools (fn_name c)) (take i calls))"

subsection \<open>Sample data\<close>

definition example_flight :: json where
  "example_flight =
     JObj [(''icao24'', JStr ''760a1b''), (''callsign'', JStr ''PIA293''),
           (''origin_country'', JStr ''Pakistan''),
           (''baro_altitude'', JFloat (Finite 8900)), (''on_ground'', JBool False),
           (''velocity'', JInt 50), (''vertical_rate'', JFloat (Finite (- 25))),
           (''geo_altitude'', JFloat (Finite 9000))]"

definition quiet_flight :: json where
  "quiet_flight =
     JObj [(''icao24'', JStr ''4b1805''), (''callsign'', JStr ''SWR8T   ''),
           (''velocity'', JFloat (Finite 200)), (''vertical_rate'', JInt 5),
           (''geo_altitude'', JInt 9000)]"

definition example_payload :: json where
  "example_payload =
     JObj [(''region'', JStr ''region1''), (''snapshot_time'', JInt 1700000000),
           (''fetched_at_iso'', JStr ''2023-11-14T22:13:20Z''), (''flight_count'', JInt 2),
           (''flights'', JArr [quiet_flight, example_flight])]"

definition example_get :: "string \<Rightarrow> http_result" where
  "example_get url = Response 200 (Some example_payload)"

definition example_webhooks :: "(string \<times> string) list" where
  "example_webhooks = REGION_WEBHOOKS (\<lambda>_. None)"

definition zero_geo_flight :: json where
  "zero_geo_flight =
     JObj [(''icao24'', JStr ''3c6444''), (''callsign'', JStr ''DLH400''),
           (''baro_altitude'', JFloat (Finite 9000)), (''velocity'', JFloat (Finite 50)),
           (''vertical_rate'', JFloat (Finite 0)), (''geo_altitude'', JFloat (Finite 0))]"

definition zero_geo_get :: "string \<Rightarrow> http_result" where
  "zero_geo_get url =
     Response 200 (Some (JObj [(''region'', JStr ''region1''), (''snapshot_time'', JInt 1700000000),
           (''fetched_at_iso'', JStr ''2023-11-14T22:13:20Z''), (''flight_count'', JInt 1),
           (''flights'', JArr [zero_geo_flight])]))"

definition stale_count_get :: "string \<Rightarrow> http_result" where
  "stale_count_get url =
     Response 200 (Some (JObj [(''region'', JStr ''region1''), (''snapshot_time'', JInt 1700000000),
           (''fetched_at_iso'', JStr ''2023-11-14T22:13:20Z''), (''flight_count'', JInt 5),
           (''flights'', JArr [quiet_flight])]))"

definition bare_get :: "string \<Rightarrow> http_result" where
  "bare_get url =
     Response 200 (Some (JObj [(''snapshot_time'', JInt 1700000000),
           (''fetched_at_iso'', JStr ''2023-11-14T22:13:20Z''),
           (''flights'', JArr [quiet_flight, example_flight])]))"

definition no_callsign_flight :: json where
  "no_callsign_flight =
     JObj [(''icao24'', JStr ''a0b1c2''), (''origin_country'', JStr ''United States''),
           (''velocity'', JFloat (Finite 230)), (''geo_altitude'', JFloat (Finite 10500))]"

definition null_callsign_flight :: json where
  "null_callsign_flight =
     JObj [(''icao24'', JStr ''06a0c1''), (''callsign'', JNull), (''on_ground'', JBool True)]"

definition blank_callsigns_get :: "string \<Rightarrow> http_result" where
  "blank_callsigns_get url =
     Response 200 (Some (JObj [(''region'', JStr ''region1''), (''snapshot_time'', JInt 1700000000),
           (''fetched_at_iso'', JStr ''2023-11-14T22:13:20Z''), (''flight_count'', JInt 3),
           (''flights'', JArr [quiet_flight, no_callsign_flight, null_callsign_flight])]))"

definition empty_get :: "string \<Rightarrow> http_result" where
  "empty_get url =
     Response 200 (Some (JObj [(''region'', JStr ''region1''), (''snapshot_time'', JInt 1700000000),
           (''fetched_at_iso'', JStr ''2023-11-14T22:13:20Z''), (''flight_count'', JInt 0),
           (''flights'', JArr [])]))"

definition flights_only_get :: "string \<Rightarrow> http_result" where
  "flights_only_get url = Response 200 (Some (JObj [(''flights'', JArr [])]))"

definition zero_callsign_flight :: json where
  "zero_callsign_flight = JObj [(''icao24'', JStr ''4ca7b3''), (''callsign'', JInt 0)]"

definition zero_callsign_get :: "string \<Rightarrow> http_result" where
  "zero_callsign_get url =
     Response 200 (Some (JObj [(''region'', JStr ''region1''), (''snapshot_time'', JInt 1700000000),
           (''fetched_at_iso'', JStr ''2023-11-14T22:13:20Z''), (''flight_count'', JInt 2),
           (''flights'', JArr [zero_callsign_flight, null_callsign_flight])]))"

definition text_velocity_flight :: json where
  "text_velocity_flight =
     JObj [(''icao24'', JStr ''39de4f''), (''callsign'', JStr ''AFR1234''),
           (''velocity'', JStr ''fast''), (''geo_altitude'', JFloat (Finite 9000))]"

definition text_velocity_get :: "string \<Rightarrow> http_result" where
  "text_velocity_get url =
     Response 200 (Some (JObj [(''region'', JStr ''region1''), (''snapshot_time'', JInt 1700000000),
           (''fetched_at_iso'', JStr ''2023-11-14T22:13:20Z''), (''flight_count'', JInt 2),
           (''flights'', JArr [example_flight, text_velocity_flight])]))"

definition baro_only_flight :: json where
  "baro_only_flight =
     JObj [(''icao24'', JStr ''71be12''), (''callsign'', JStr ''KAL902''),
           (''baro_altitude'', JInt 9000), (''velocity'', JFloat (Finite 50)),
           (''vertical_rate'', JInt (- 25))]"

definition baro_only_get :: "string \<Rightarrow> http_result" where
  "baro_only_get url =
     Response 200 (Some (JObj [(''region'', JStr ''region1''), (''snapshot_time'', JInt 1700000000),
           (''fetched_at_iso'', JStr ''2023-11-14T22:13:20Z''), (''flight_count'', JInt 1),
           (''flights'', JArr [baro_only_flight])]))"

definition final_answer :: assistant_message where
  "final_answer =
     \<lparr>msg_content = Some ''PIA293 is descending fast at low speed; please check with the crew.'',
      msg_tool_calls = None\<rparr>"

definition lookup_call :: tool_call where
  "lookup_call =
     \<lparr>call_id = ''call_1'', fn_name = ''flights_get_by_callsign'',
      fn_arguments = ArgsJSON (JObj [(''callsign'', JStr '' pia293 '')])\<rparr>"

definition forbidden_call :: tool_call where
  "forbidden_call =
     \<lparr>call_id = ''call_2'', fn_name = ''alerts_list_active'', fn_arguments = ArgsEmpty\<rparr>"

definition unknown_region_call :: tool_call where
  "unknown_region_call =
     \<lparr>call_id = ''call_3'', fn_name = ''flights_get_by_callsign'',
      fn_arguments = ArgsJSON (JObj [(''callsign'', JStr ''PIA293''), (''region'', JStr ''region9'')])\<rparr>"

definition malformed_call :: tool_call where
  "malformed_call =
     \<lparr>call_id = ''call_4'', fn_name = ''flights_get_by_callsign'', fn_arguments = ArgsMalformed\<rparr>"

definition alerts_call :: tool_call where
  "alerts_call =
     \<lparr>call_id = ''call_5'', fn_name = ''alerts_list_active'',
      fn_arguments = ArgsJSON (JObj [(''region'', JStr ''region1'')])\<rparr>"

definition scripted_reply :: "request list \<Rightarrow> request \<Rightarrow> error + assistant_message" where
  "scripted_reply history req =
     (case req_tools req of
        None \<Rightarrow> Inr final_answer
      | Some tools \<Rightarrow>
          if ''flights_get_by_callsign'' \<in> set (map schema_name tools)
          then Inr \<lparr>msg_content = None,
                    msg_tool_calls = Some [lookup_call, forbidden_call, unknown_region_call]\<rparr>
          else Inr \<lparr>msg_content = None, msg_tool_calls = Some [alerts_call]\<rparr>)"

definition malformed_reply :: "request list \<Rightarrow> request \<Rightarrow> error + assistant_message" where
  "malformed_reply history req =
     (case req_tools req of
        None \<Rightarrow> Inr final_answer
      | Some tools \<Rightarrow>
          Inr \<lparr>msg_content = None, msg_tool_calls = Some [lookup_call, malformed_call]\<rparr>)"

definition direct_reply :: "request list \<Rightarrow> request \<Rightarrow> error + assistant_message" where
  "direct_reply history req = Inr final_answer"

definition api_env :: "(request list \<Rightarrow> request \<Rightarrow> error + assistant_message) \<Rightarrow> env" where
  "api_env reply =
     \<lparr>os_getenv = (\<lambda>k. if k = ''GROQ_API_KEY'' then Some ''gsk-example'' else None),
      requests_get = (\<lambda>n. example_get),
      chat_completions_create = reply\<rparr>"

definition initial_state :: state where
  "initial_state = \<lparr>client_created = False, requests_sent = [], dispatches = 0\<rparr>"

definition example_question :: string where
  "example_question = ''Where is it now and is everything normal?''"

section \<open>Properties of the tools\<close>

lemmas py_defs = py_or_def dict_get_def dict_get_default_def getitem_def setdefault_def
  py_gt_def py_lt_def

subsection \<open>Evaluation of the sample data\<close>

lemma example_fetch:
  "fetch_snapshot example_webhooks example_get ''region1'' =
     Inr [(''region'', JStr ''region1''), (''snapshot_time'', JInt 1700000000),
           (''fetched_at_iso'', JStr ''2023-11-14T22:13:20Z''), (''flight_count'', JInt 2),
           (''flights'', JArr [quiet_flight, example_flight])]"
  by (simp add: fetch_snapshot_def example_webhooks_def REGION_WEBHOOKS_def example_get_def
      raise_for_status_def example_payload_def backfill_def py_defs)

lemma quiet_alert: "flight_alert quiet_flight = Inr None"
  by (simp add: flight_alert_def quiet_flight_def py_defs low_speed_rule_def vertical_rate_rule_def)

lemma example_alert:
  "flight_alert example_flight =
     Inr (Some \<lparr>a_flight = example_flight,
                 a_reason = ''Unusually low speed at high altitude; Very high descent rate'',
                 a_severity = ''warning''\<rparr>)"
  by (simp add: flight_alert_def example_flight_def py_defs low_speed_rule_def vertical_rate_rule_def)

lemma example_alerts:
  "alerts_list_active example_webhooks example_get ''region1'' =
     Inr \<lparr>ar_region = JStr ''region1'', ar_snapshot_time = JInt 1700000000,
          ar_fetched_at_iso = JStr ''2023-11-14T22:13:20Z'', ar_alert_count = 1,
          ar_alerts = [\<lparr>a_flight = example_flight,
                        a_reason = ''Unusually low speed at high altitude; Very high descent rate'',
                        a_severity = ''warning''\<rparr>]\<rparr>"
  by (simp add: alerts_list_active_def example_fetch alerts_in_def py_defs quiet_alert example_alert)

subsection \<open>The snapshot fetcher\<close>

lemma map_of_setdefault:
  "map_of (setdefault d k v) k' =
     (if k' = k then (case map_of d k of None \<Rightarrow> Some v | Some w \<Rightarrow> Some w) else map_of d k')"
  by (auto simp: setdefault_def map_add_def split: option.splits)

lemma fetch_snapshot_backfill:
  assumes "map_of webhooks region = Some url"
    and "get url = Response status (Some data)"
    and "fetch_snapshot webhooks get region = Inr snapshot"
  shows "backfill region data = Inr snapshot"
  using assms by (simp add: fetch_snapshot_def split: if_splits)

text \<open>
  A payload that supplies a \<^verbatim>\<open>flight_count\<close> of 5 with one flight: the fetcher returns it
  as it is, and the count is not the length of the list.
\<close>

theorem supplied_flight_count_counterexample:
  "fetch_snapshot example_webhooks stale_count_get ''region1'' =
     Inr [(''region'', JStr ''region1''), (''snapshot_time'', JInt 1700000000),
          (''fetched_at_iso'', JStr ''2023-11-14T22:13:20Z''), (''flight_count'', JInt 5),
          (''flights'', JArr [quiet_flight])]
   \<and> flights_list_region_snapshot example_webhooks stale_count_get ''region1'' =
     Inr [(''region'', JStr ''region1''), (''snapshot_time'', JInt 1700000000),
          (''fetched_at_iso'', JStr ''2023-11-14T22:13:20Z''), (''flight_count'', JInt 5),
          (''flights'', JArr [quiet_flight])]
   \<and> \<not> flight_count_matches
          [(''region'', JStr ''region1''), (''snapshot_time'', JInt 1700000000),
           (''fetched_at_iso'', JStr ''2023-11-14T22:13:20Z''), (''flight_count'', JInt 5),
           (''flights'', JArr [quiet_flight])]"
  by (simp add: flights_list_region_snapshot_def fetch_snapshot_def example_webhooks_def
      REGION_WEBHOOKS_def stale_count_get_def raise_for_status_def backfill_def py_defs
      flight_count_matches_def)

text \<open>
  Claim C1, amended. When the payload has no key \<^verbatim>\<open>flight_count\<close>, the snapshot that the
  fetcher (and so the Region Snapshot tool) returns has a \<^verbatim>\<open>flight_count\<close> equal to the
  length of its flights; a \<^verbatim>\<open>flight_count\<close> that the payload supplies is returned
  unchanged.
\<close>

theorem flight_count_backfilled_or_passed_through:
  assumes "map_of webhooks region = Some url"
    and "get url = Response status (Some (JObj d))"
    and "fetch_snapshot webhooks get region = Inr snapshot"
  shows "flights_list_region_snapshot webhooks get region = Inr snapshot \<and>
         (map_of d ''flight_count'' = None \<longrightarrow> flight_count_matches snapshot) \<and>
         (\<forall>v. map_of d ''flight_count'' = Some v \<longrightarrow> map_of snapshot ''flight_count'' = Some v)"
proof -
  define d1 where "d1 = setdefault d ''region'' (JStr region)"
  from fetch_snapshot_backfill[OF assms] obtain n where
    n: "py_len (dict_get_default d1 ''flights'' (JArr [])) = Inr n" and
    s: "snapshot = setdefault d1 ''flight_count'' (JInt (int n))"
    by (auto simp: backfill_def Let_def d1_def split: sum.splits)
  have fc: "map_of d1 ''flight_count'' = map_of d ''flight_count''"
    by (simp add: d1_def map_of_setdefault)
  have fl: "dict_get_default snapshot ''flights'' (JArr []) = dict_get_default d1 ''flights'' (JArr [])"
    by (simp add: s dict_get_default_def map_of_setdefault)
  have "flights_list_region_snapshot webhooks get region = Inr snapshot"
    using assms(3) by (simp add: flights_list_region_snapshot_def)
  then show ?thesis
    using n fc fl by (auto simp: flight_count_matches_def s map_of_setdefault)
qed

theorem flight_count_backfilled_or_passed_through_witness:
  "map_of example_webhooks ''region1'' = Some ''http://localhost:5678/webhook/latest-region1''
   \<and> (\<exists>snapshot. fetch_snapshot example_webhooks bare_get ''region1'' = Inr snapshot \<and>
         flight_count_matches snapshot \<and> map_of snapshot ''flight_count'' = Some (JInt 2))
   \<and> (\<exists>snapshot. fetch_snapshot example_webhooks stale_count_get ''region1'' = Inr snapshot \<and>
         map_of snapshot ''flight_count'' = Some (JInt 5))"
proof -
  have 1: "map_of example_webhooks ''region1'' = Some ''http://localhost:5678/webhook/latest-region1''"
    by (simp add: example_webhooks_def REGION_WEBHOOKS_def)
  have 2: "bare_get ''http://localhost:5678/webhook/latest-region1'' =
     Response 200 (Some (JObj [(''snapshot_time'', JInt 1700000000),
           (''fetched_at_iso'', JStr ''2023-11-14T22:13:20Z''),
           (''flights'', JArr [quiet_flight, example_flight])]))"
    by (simp add: bare_get_def)
  have 3: "fetch_snapshot example_webhooks bare_get ''region1'' =
     Inr [(''snapshot_time'', JInt 1700000000),
           (''fetched_at_iso'', JStr ''2023-11-14T22:13:20Z''),
           (''flights'', JArr [quiet_flight, example_flight]), (''region'', JStr ''region1''),
           (''flight_count'', JInt 2)]"
    by (simp add: fetch_snapshot_def example_webhooks_def REGION_WEBHOOKS_def bare_get_def
      raise_for_status_def backfill_def py_defs)
  have 4: "stale_count_get ''http://localhost:5678/webhook/latest-region1'' =
     Response 200 (Some (JObj [(''region'', JStr ''region1''), (''snapshot_time'', JInt 1700000000),
           (''fetched_at_iso'', JStr ''2023-11-14T22:13:20Z''), (''flight_count'', JInt 5),
           (''flights'', JArr [quiet_flight])]))"
    by (simp add: stale_count_get_def)
  have 5: "fetch_snapshot example_webhooks stale_count_get ''region1'' =
     Inr [(''region'', JStr ''region1''), (''snapshot_time'', JInt 1700000000),
          (''fetched_at_iso'', JStr ''2023-11-14T22:13:20Z''), (''flight_count'', JInt 5),
          (''flights'', JArr [quiet_flight])]"
    by (simp add: fetch_snapshot_def example_webhooks_def REGION_WEBHOOKS_def stale_count_get_def
      raise_for_status_def backfill_def py_defs)
  from flight_count_backfilled_or_passed_through[OF 1 2 3]
    flight_count_backfilled_or_passed_through[OF 1 4 5]
  show ?thesis by (simp add: 1 3 5)
qed

subsection \<open>Callsign lookup\<close>

lemma normalise_padded_query: "upper (strip '' pia293 '') = [80, 73, 65, 50, 57, 51]"
  by code_simp

lemma normalise_plain_query: "upper (strip ''PIA293'') = [80, 73, 65, 50, 57, 51]"
  by code_simp

lemma upper_Nil_iff: "upper s = [] \<longleftrightarrow> s = []"
  by (cases s) (auto simp: upper_def upper_char_def Let_def)

lemma strip_Nil: "strip [] = []"
  by (simp add: strip_def)

lemma is_Flight_stored_callsign:
  assumes "is_Flight f"
  shows "\<exists>cs. stored_callsign f = Inr cs"
proof -
  from assms obtain d where f: "f = JObj d" by (cases f) auto
  from assms f have "optional_key d ''callsign'' (is_optional is_str)" by simp
  then show ?thesis
    by (auto simp: f stored_callsign_def optional_key_def dict_get_def py_or_def
        split: option.splits json.splits elim: is_optional.elims is_str.elims)
qed

lemma find_flight_typed:
  "list_all is_Flight fs \<Longrightarrow>
     find_flight target fs = Inr (List.find (\<lambda>f. stored_callsign f = Inr target) fs)"
proof (induction fs)
  case Nil
  then show ?case by simp
next
  case (Cons f fs)
  then obtain cs where "stored_callsign f = Inr cs"
    using is_Flight_stored_callsign[of f] by auto
  with Cons show ?case by simp
qed

lemma is_Flight_blank:
  assumes "is_Flight f"
  shows "(stored_callsign f = Inr []) = blank_callsign f"
proof -
  from assms obtain d where f: "f = JObj d" by (cases f) auto
  from assms f have "optional_key d ''callsign'' (is_optional is_str)" by simp
  then show ?thesis
    by (auto simp: f stored_callsign_def blank_callsign_def optional_key_def dict_get_def
        py_or_def upper_Nil_iff strip_Nil
        split: option.splits json.splits elim: is_optional.elims is_str.elims)
qed

lemma is_Snapshot_keys:
  assumes "is_Snapshot s"
  obtains r t i fs where "map_of s ''region'' = Some r" "map_of s ''snapshot_time'' = Some t"
    "map_of s ''fetched_at_iso'' = Some i" "map_of s ''flights'' = Some (JArr fs)"
    "list_all is_Flight fs"
proof -
  from assms have a: "required_key s ''region'' is_str" "required_key s ''snapshot_time'' is_int"
    "required_key s ''fetched_at_iso'' is_str" "required_key s ''flights'' is_Flight_list"
    by (simp_all add: is_Snapshot_def)
  from a(4) obtain fs where "map_of s ''flights'' = Some (JArr fs)" "list_all is_Flight fs"
    by (auto simp: required_key_def split: option.splits elim: is_Flight_list.elims)
  moreover from a(1,2,3) obtain r t i where "map_of s ''region'' = Some r"
    "map_of s ''snapshot_time'' = Some t" "map_of s ''fetched_at_iso'' = Some i"
    by (auto simp: required_key_def split: option.splits)
  ultimately show ?thesis using that by blast
qed

lemma lookup_in_typed:
  assumes "map_of s ''region'' = Some r" "map_of s ''snapshot_time'' = Some t"
    "map_of s ''fetched_at_iso'' = Some i" "map_of s ''flights'' = Some (JArr fs)"
    "list_all is_Flight fs"
  shows "lookup_in s callsign region =
     Inr \<lparr>lr_region = r, lr_snapshot_time = t, lr_fetched_at_iso = i,
          lr_flight = List.find (\<lambda>f. stored_callsign f = Inr (upper (strip callsign))) fs,
          lr_message =
            (case List.find (\<lambda>f. stored_callsign f = Inr (upper (strip callsign))) fs of
               None \<Rightarrow> ''No flight with callsign '' @ [CHR 0x27] @ callsign @ [CHR 0x27]
                          @ '' found in '' @ region
             | Some f \<Rightarrow> ''Found flight '' @ callsign @ '' in '' @ region)\<rparr>"
  using assms
  by (simp add: lookup_in_def dict_get_default_def find_flight_typed lookup_result_def
      getitem_def split: option.splits)

text \<open>Evaluation of the lookup on the sample data.\<close>

lemma example_is_Snapshot:
  "is_Snapshot [(''region'', JStr ''region1''), (''snapshot_time'', JInt 1700000000),
           (''fetched_at_iso'', JStr ''2023-11-14T22:13:20Z''), (''flight_count'', JInt 2),
           (''flights'', JArr [quiet_flight, example_flight])]"
  by code_simp

lemma example_lookup_padded:
  "flights_get_by_callsign example_webhooks example_get '' pia293 '' ''region1'' =
     Inr \<lparr>lr_region = JStr ''region1'', lr_snapshot_time = JInt 1700000000,
          lr_fetched_at_iso = JStr ''2023-11-14T22:13:20Z'', lr_flight = Some example_flight,
          lr_message = ''Found flight  pia293  in region1''\<rparr>"
  by code_simp

lemma example_lookup_plain:
  "flights_get_by_callsign example_webhooks example_get ''PIA293'' ''region1'' =
     Inr \<lparr>lr_region = JStr ''region1'', lr_snapshot_time = JInt 1700000000,
          lr_fetched_at_iso = JStr ''2023-11-14T22:13:20Z'', lr_flight = Some example_flight,
          lr_message = ''Found flight PIA293 in region1''\<rparr>"
  by code_simp

text \<open>
  A payload that holds an empty list of flights and nothing else: the fetcher returns it
  with a region and a count, and the lookup raises on line 115, where it reads the
  snapshot time.
\<close>

theorem lookup_without_snapshot_time_counterexample:
  "fetch_snapshot example_webhooks flights_only_get ''region1'' =
     Inr [(''flights'', JArr []), (''region'', JStr ''region1''), (''flight_count'', JInt 0)]
   \<and> flights_get_by_callsign example_webhooks flights_only_get ''PIA293'' ''region1'' =
     Inl (KeyError ''snapshot_time'')"
  by code_simp

text \<open>
  Claim C8, amended. On a snapshot of the declared shape in which no flight's normalised
  callsign is the normalised query, \<^verbatim>\<open>flights_get_by_callsign\<close> returns a result, not an
  exception: its flight is null and its message says that no flight was found. The
  snapshot of that shape without flights is one such snapshot.
\<close>

theorem callsign_not_found_is_a_result:
  assumes "fetch_snapshot webhooks get region = Inr snapshot"
    and "is_Snapshot snapshot"
    and "map_of snapshot ''flights'' = Some (JArr fs)"
    and "\<forall>f \<in> set fs. stored_callsign f \<noteq> Inr (upper (strip callsign))"
  shows "\<exists>r t i. flights_get_by_callsign webhooks get callsign region =
           Inr \<lparr>lr_region = r, lr_snapshot_time = t, lr_fetched_at_iso = i, lr_flight = None,
                lr_message = ''No flight with callsign '' @ [CHR 0x27] @ callsign @ [CHR 0x27]
                               @ '' found in '' @ region\<rparr>"
proof -
  from assms(2) obtain r t i fs' where k: "map_of snapshot ''region'' = Some r"
    "map_of snapshot ''snapshot_time'' = Some t"
    "map_of snapshot ''fetched_at_iso'' = Some i" "map_of snapshot ''flights'' = Some (JArr fs')"
    "list_all is_Flight fs'"
    by (rule is_Snapshot_keys)
  with assms(3) have fs: "fs' = fs" by simp
  from assms(4) have "List.find (\<lambda>f. stored_callsign f = Inr (upper (strip callsign))) fs = None"
    by (simp add: find_None_iff)
  with lookup_in_typed[OF k, of callsign region] assms(1) fs show ?thesis
    by (simp add: flights_get_by_callsign_def)
qed

theorem callsign_not_found_is_a_result_witness:
  "flights_get_by_callsign example_webhooks example_get ''uae77'' ''region1'' =
     Inr \<lparr>lr_region = JStr ''region1'', lr_snapshot_time = JInt 1700000000,
          lr_fetched_at_iso = JStr ''2023-11-14T22:13:20Z'', lr_flight = None,
          lr_message = ''No flight with callsign '' @ [CHR 0x27] @ ''uae77'' @ [CHR 0x27]
                         @ '' found in region1''\<rparr>
   \<and> flights_get_by_callsign example_webhooks empty_get ''PIA293'' ''region1'' =
     Inr \<lparr>lr_region = JStr ''region1'', lr_snapshot_time = JInt 1700000000,
          lr_fetched_at_iso = JStr ''2023-11-14T22:13:20Z'', lr_flight = None,
          lr_message = ''No flight with callsign '' @ [CHR 0x27] @ ''PIA293'' @ [CHR 0x27]
                         @ '' found in region1''\<rparr>"
proof -
  have f: "map_of [(''region'', JStr ''region1''), (''snapshot_time'', JInt 1700000000),
           (''fetched_at_iso'', JStr ''2023-11-14T22:13:20Z''), (''flight_count'', JInt 2),
           (''flights'', JArr [quiet_flight, example_flight])] ''flights''
         = Some (JArr [quiet_flight, example_flight])"
    by simp
  have n: "\<forall>f \<in> set [quiet_flight, example_flight].
             stored_callsign f \<noteq> Inr (upper (strip ''uae77''))"
    by code_simp
  have e1: "fetch_snapshot example_webhooks empty_get ''region1'' =
     Inr [(''region'', JStr ''region1''), (''snapshot_time'', JInt 1700000000),
          (''fetched_at_iso'', JStr ''2023-11-14T22:13:20Z''), (''flight_count'', JInt 0),
          (''flights'', JArr [])]"
    by code_simp
  have e2: "is_Snapshot [(''region'', JStr ''region1''), (''snapshot_time'', JInt 1700000000),
          (''fetched_at_iso'', JStr ''2023-11-14T22:13:20Z''), (''flight_count'', JInt 0),
          (''flights'', JArr [])]"
    by code_simp
  have e3: "map_of [(''region'', JStr ''region1''), (''snapshot_time'', JInt 1700000000),
          (''fetched_at_iso'', JStr ''2023-11-14T22:13:20Z''), (''flight_count'', JInt 0),
          (''flights'', JArr [])] ''flights'' = Some (JArr [])"
    by simp
  have e4: "\<forall>f \<in> set []. stored_callsign f \<noteq> Inr (upper (strip ''PIA293''))"
    by simp
  have v1: "flights_get_by_callsign example_webhooks example_get ''uae77'' ''region1'' =
     Inr \<lparr>lr_region = JStr ''region1'', lr_snapshot_time = JInt 1700000000,
          lr_fetched_at_iso = JStr ''2023-11-14T22:13:20Z'', lr_flight = None,
          lr_message = ''No flight with callsign '' @ [CHR 0x27] @ ''uae77'' @ [CHR 0x27]
                         @ '' found in region1''\<rparr>"
    by code_simp
  have v2: "flights_get_by_callsign example_webhooks empty_get ''PIA293'' ''region1'' =
     Inr \<lparr>lr_region = JStr ''region1'', lr_snapshot_time = JInt 1700000000,
          lr_fetched_at_iso = JStr ''2023-11-14T22:13:20Z'', lr_flight = None,
          lr_message = ''No flight with callsign '' @ [CHR 0x27] @ ''PIA293'' @ [CHR 0x27]
                         @ '' found in region1''\<rparr>"
    by code_simp
  from callsign_not_found_is_a_result[OF example_fetch example_is_Snapshot f n]
    callsign_not_found_is_a_result[OF e1 e2 e3 e4]
  show ?thesis by (simp only: v1 v2 simp_thms)
qed

text \<open>
  The two lookups of the sample flight return results that are not equal: each message
  quotes the query as it was typed.
\<close>

theorem padded_and_plain_query_counterexample:
  "flights_get_by_callsign example_webhooks example_get '' pia293 '' ''region1'' \<noteq>
   flights_get_by_callsign example_webhooks example_get ''PIA293'' ''region1''"
  by (simp add: example_lookup_padded example_lookup_plain)

text \<open>
  Claim C3, amended. On a snapshot of the declared shape with a flight of callsign
  \<^verbatim>\<open>PIA293\<close>, the lookups of \<^verbatim>\<open>" pia293 "\<close> and of \<^verbatim>\<open>"PIA293"\<close> both succeed and return
  the same region, snapshot time, fetch time and flight, which is not null. Their
  messages differ.
\<close>

theorem padded_and_plain_query_agree_up_to_message:
  assumes "fetch_snapshot webhooks get region = Inr snapshot"
    and "is_Snapshot snapshot"
    and "map_of snapshot ''flights'' = Some (JArr fs)"
    and "JObj d \<in> set fs"
    and "map_of d ''callsign'' = Some (JStr ''PIA293'')"
  shows "\<exists>r t i f.
           flights_get_by_callsign webhooks get '' pia293 '' region =
             Inr \<lparr>lr_region = r, lr_snapshot_time = t, lr_fetched_at_iso = i, lr_flight = Some f,
                  lr_message = ''Found flight  pia293  in '' @ region\<rparr> \<and>
           flights_get_by_callsign webhooks get ''PIA293'' region =
             Inr \<lparr>lr_region = r, lr_snapshot_time = t, lr_fetched_at_iso = i, lr_flight = Some f,
                  lr_message = ''Found flight PIA293 in '' @ region\<rparr>"
proof -
  from assms(2) obtain r t i fs' where k: "map_of snapshot ''region'' = Some r"
    "map_of snapshot ''snapshot_time'' = Some t"
    "map_of snapshot ''fetched_at_iso'' = Some i" "map_of snapshot ''flights'' = Some (JArr fs')"
    "list_all is_Flight fs'"
    by (rule is_Snapshot_keys)
  with assms(3) have fs: "fs' = fs" by simp
  have "stored_callsign (JObj d) = Inr [80, 73, 65, 50, 57, 51]"
    using assms(5) normalise_plain_query
    by (simp add: stored_callsign_def dict_get_def py_or_def)
  with assms(4) obtain f where
    f: "List.find (\<lambda>f. stored_callsign f = Inr [80, 73, 65, 50, 57, 51]) fs = Some f"
    by (cases "List.find (\<lambda>f. stored_callsign f = Inr [80, 73, 65, 50, 57, 51]) fs")
       (auto simp: find_None_iff)
  from lookup_in_typed[OF k, of "'' pia293 ''" region] lookup_in_typed[OF k, of "''PIA293''" region]
    assms(1) fs f
  show ?thesis
    by (simp add: flights_get_by_callsign_def normalise_padded_query normalise_plain_query)
qed

theorem padded_and_plain_query_agree_up_to_message_witness:
  "flights_get_by_callsign example_webhooks example_get '' pia293 '' ''region1'' =
     Inr \<lparr>lr_region = JStr ''region1'', lr_snapshot_time = JInt 1700000000,
          lr_fetched_at_iso = JStr ''2023-11-14T22:13:20Z'', lr_flight = Some example_flight,
          lr_message = ''Found flight  pia293  in region1''\<rparr>
   \<and> flights_get_by_callsign example_webhooks example_get ''PIA293'' ''region1'' =
     Inr \<lparr>lr_region = JStr ''region1'', lr_snapshot_time = JInt 1700000000,
          lr_fetched_at_iso = JStr ''2023-11-14T22:13:20Z'', lr_flight = Some example_flight,
          lr_message = ''Found flight PIA293 in region1''\<rparr>"
proof -
  let ?d = "[(''icao24'', JStr ''760a1b''), (''callsign'', JStr ''PIA293''),
           (''origin_country'', JStr ''Pakistan''),
           (''baro_altitude'', JFloat (Finite 8900)), (''on_ground'', JBool False),
           (''velocity'', JInt 50), (''vertical_rate'', JFloat (Finite (- 25))),
           (''geo_altitude'', JFloat (Finite 9000))]"
  have f: "map_of [(''region'', JStr ''region1''), (''snapshot_time'', JInt 1700000000),
           (''fetched_at_iso'', JStr ''2023-11-14T22:13:20Z''), (''flight_count'', JInt 2),
           (''flights'', JArr [quiet_flight, example_flight])] ''flights''
         = Some (JArr [quiet_flight, JObj ?d])"
    by (simp add: example_flight_def)
  have m: "JObj ?d \<in> set [quiet_flight, JObj ?d]" by simp
  have c: "map_of ?d ''callsign'' = Some (JStr ''PIA293'')" by simp
  from padded_and_plain_query_agree_up_to_message[OF example_fetch example_is_Snapshot f m c]
  show ?thesis by (simp only: example_lookup_padded example_lookup_plain simp_thms)
qed

text \<open>
  A snapshot whose first flight has the callsign 0 and whose second has a null callsign.
  Line 107 takes the 0 for an empty callsign: the blank query matches the first flight,
  whose callsign is neither missing nor null nor white space, and not the second.
\<close>

theorem blank_query_matches_zero_callsign_counterexample:
  "upper (strip ''   '') = []
   \<and> flights_get_by_callsign example_webhooks zero_callsign_get ''   '' ''region1'' =
       Inr \<lparr>lr_region = JStr ''region1'', lr_snapshot_time = JInt 1700000000,
            lr_fetched_at_iso = JStr ''2023-11-14T22:13:20Z'',
            lr_flight = Some zero_callsign_flight,
            lr_message = ''Found flight     in region1''\<rparr>
   \<and> \<not> blank_callsign zero_callsign_flight
   \<and> List.find blank_callsign [zero_callsign_flight, null_callsign_flight]
       = Some null_callsign_flight
   \<and> zero_callsign_flight \<noteq> null_callsign_flight"
  by code_simp

text \<open>
  Claim C10, amended. When the query normalises to the empty string and the snapshot, of
  the declared shape, has a flight whose callsign is missing, null or white space only,
  the lookup returns the first such flight in snapshot order as a match.
\<close>

theorem blank_query_matches_first_blank_callsign:
  assumes "fetch_snapshot webhooks get region = Inr snapshot"
    and "is_Snapshot snapshot"
    and "map_of snapshot ''flights'' = Some (JArr fs)"
    and "upper (strip callsign) = []"
    and "\<exists>f \<in> set fs. blank_callsign f"
  shows "\<exists>r t i f.
           flights_get_by_callsign webhooks get callsign region =
             Inr \<lparr>lr_region = r, lr_snapshot_time = t, lr_fetched_at_iso = i, lr_flight = Some f,
                  lr_message = ''Found flight '' @ callsign @ '' in '' @ region\<rparr> \<and>
           List.find blank_callsign fs = Some f"
proof -
  from assms(2) obtain r t i fs' where k: "map_of snapshot ''region'' = Some r"
    "map_of snapshot ''snapshot_time'' = Some t"
    "map_of snapshot ''fetched_at_iso'' = Some i" "map_of snapshot ''flights'' = Some (JArr fs')"
    "list_all is_Flight fs'"
    by (rule is_Snapshot_keys)
  with assms(3) have fs: "fs' = fs" by simp
  from k(5) fs have "List.find (\<lambda>f. stored_callsign f = Inr []) fs = List.find blank_callsign fs"
    by (intro find_cong) (auto simp: list_all_iff is_Flight_blank)
  moreover from assms(5) obtain f where "List.find blank_callsign fs = Some f"
    by (cases "List.find blank_callsign fs") (auto simp: find_None_iff)
  ultimately show ?thesis
    using lookup_in_typed[OF k, of callsign region] assms(1,4) fs
    by (simp add: flights_get_by_callsign_def)
qed

theorem blank_query_matches_first_blank_callsign_witness:
  "upper (strip ''   '') = []
   \<and> flights_get_by_callsign example_webhooks blank_callsigns_get ''   '' ''region1'' =
       Inr \<lparr>lr_region = JStr ''region1'', lr_snapshot_time = JInt 1700000000,
            lr_fetched_at_iso = JStr ''2023-11-14T22:13:20Z'',
            lr_flight = Some no_callsign_flight,
            lr_message = ''Found flight     in region1''\<rparr>
   \<and> List.find blank_callsign [quiet_flight, no_callsign_flight, null_callsign_flight]
       = Some no_callsign_flight"
proof -
  let ?s = "[(''region'', JStr ''region1''), (''snapshot_time'', JInt 1700000000),
           (''fetched_at_iso'', JStr ''2023-11-14T22:13:20Z''), (''flight_count'', JInt 3),
           (''flights'', JArr [quiet_flight, no_callsign_flight, null_callsign_flight])]"
  have 1: "fetch_snapshot example_webhooks blank_callsigns_get ''region1'' = Inr ?s"
    by code_simp
  have 2: "is_Snapshot ?s" by code_simp
  have 3: "map_of ?s ''flights'' =
             Some (JArr [quiet_flight, no_callsign_flight, null_callsign_flight])"
    by simp
  have 4: "upper (strip ''   '') = []" by code_simp
  have 5: "\<exists>f \<in> set [quiet_flight, no_callsign_flight, null_callsign_flight]. blank_callsign f"
    by code_simp
  have v1: "flights_get_by_callsign example_webhooks blank_callsigns_get ''   '' ''region1'' =
       Inr \<lparr>lr_region = JStr ''region1'', lr_snapshot_time = JInt 1700000000,
            lr_fetched_at_iso = JStr ''2023-11-14T22:13:20Z'',
            lr_flight = Some no_callsign_flight,
            lr_message = ''Found flight     in region1''\<rparr>"
    by code_simp
  have v2: "List.find blank_callsign [quiet_flight, no_callsign_flight, null_callsign_flight]
       = Some no_callsign_flight"
    by code_simp
  from blank_query_matches_first_blank_callsign[OF 1 2 3 4 5]
  show ?thesis by (simp only: 4 v1 v2 simp_thms)
qed

subsection \<open>Anomaly detection\<close>

lemma low_speed_rule_cases:
  "low_speed_rule alt v ([], ''info'') = Inr st \<Longrightarrow>
     st = ([], ''info'') \<or> st = ([''Unusually low speed at high altitude''], ''warning'')"
  by (auto simp: low_speed_rule_def split: sum.splits bool.splits)

lemma vertical_rate_rule_cases:
  "vertical_rate_rule vr st = Inr st' \<Longrightarrow>
     st' = st \<or> st' = (fst st @ [''Very high descent rate''], ''warning'')
       \<or> st' = (fst st @ [''Very high climb rate''], ''warning'')"
  by (auto simp: vertical_rate_rule_def split: sum.splits bool.splits)

text \<open>A pass of the loop that appends an alert appends one with a reason and a warning.\<close>

lemma flight_alert_Some:
  assumes "flight_alert f = Inr (Some a)"
  shows "a_flight a = f \<and> a_reason a \<noteq> [] \<and> a_severity a = ''warning''"
proof -
  obtain d where f: "f = JObj d"
    using assms by (cases f) (simp_all add: flight_alert_def)
  define v where "v = py_or (dict_get d ''velocity'') (JFloat (Finite 0))"
  define alt where
    "alt = py_or (py_or (dict_get d ''geo_altitude'') (dict_get d ''baro_altitude''))
                 (JFloat (Finite 0))"
  define vr where "vr = py_or (dict_get d ''vertical_rate'') (JFloat (Finite 0))"
  from assms f obtain st1 reasons sev where
    s1: "low_speed_rule alt v ([], ''info'') = Inr st1" and
    s2: "vertical_rate_rule vr st1 = Inr (reasons, sev)" and
    ne: "reasons \<noteq> []" and
    a: "a = \<lparr>a_flight = f, a_reason = join ''; '' reasons, a_severity = sev\<rparr>"
    by (auto simp: flight_alert_def Let_def v_def alt_def vr_def
             split: sum.splits prod.splits if_splits)
  from low_speed_rule_cases[OF s1] vertical_rate_rule_cases[OF s2] ne
  have "(reasons, sev) \<in>
      {([''Unusually low speed at high altitude''], ''warning''),
       ([''Very high descent rate''], ''warning''),
       ([''Very high climb rate''], ''warning''),
       ([''Unusually low speed at high altitude'', ''Very high descent rate''], ''warning''),
       ([''Unusually low speed at high altitude'', ''Very high climb rate''], ''warning'')}"
    by auto
  then show ?thesis using a by auto
qed

text \<open>The list built so far is only ever extended at its end.\<close>

lemma collect_alerts_acc:
  "collect_alerts fs acc =
     (case collect_alerts fs [] of Inl e \<Rightarrow> Inl e | Inr new \<Rightarrow> Inr (acc @ new))"
proof (induction fs arbitrary: acc)
  case Nil
  then show ?case by simp
next
  case (Cons f fs)
  show ?case
  proof (cases "flight_alert f")
    case (Inl e)
    then show ?thesis by simp
  next
    case (Inr r)
    show ?thesis
    proof (cases r)
      case None
      with Inr Cons.IH[of acc] show ?thesis by simp
    next
      case (Some a)
      with Inr Cons.IH[of "acc @ [a]"] Cons.IH[of "[a]"] show ?thesis
        by (simp split: sum.splits)
    qed
  qed
qed

lemma collect_alerts_Cons:
  "collect_alerts (f # fs) [] =
     (case flight_alert f of
        Inl e \<Rightarrow> Inl e
      | Inr r \<Rightarrow> (case collect_alerts fs [] of
                    Inl e \<Rightarrow> Inl e
                  | Inr new \<Rightarrow> Inr ((case r of None \<Rightarrow> [] | Some a \<Rightarrow> [a]) @ new)))"
  using collect_alerts_acc[of fs "[x]" for x]
  by (simp split: sum.splits option.splits)

lemma collect_alerts_append:
  "collect_alerts (xs @ ys) [] =
     (case collect_alerts xs [] of
        Inl e \<Rightarrow> Inl e
      | Inr a \<Rightarrow> (case collect_alerts ys [] of Inl e \<Rightarrow> Inl e | Inr b \<Rightarrow> Inr (a @ b)))"
proof (induction xs)
  case Nil
  then show ?case by (simp split: sum.splits)
next
  case (Cons x xs)
  show ?case
    unfolding append_Cons collect_alerts_Cons Cons.IH
    by (simp split: sum.splits option.splits)
qed

lemma collect_alerts_all:
  "collect_alerts fs [] = Inr als \<Longrightarrow>
     (\<forall>a \<in> set als. a_reason a \<noteq> [] \<and> a_severity a = ''warning'')
     \<and> subseq (map a_flight als) fs"
proof (induction fs arbitrary: als)
  case Nil
  then show ?case by simp
next
  case (Cons f fs)
  from Cons.prems obtain r new where
    r: "flight_alert f = Inr r" and new: "collect_alerts fs [] = Inr new" and
    als: "als = (case r of None \<Rightarrow> [] | Some a \<Rightarrow> [a]) @ new"
    unfolding collect_alerts_Cons by (auto split: sum.splits)
  from Cons.IH[OF new]
  have ih: "\<forall>a \<in> set new. a_reason a \<noteq> [] \<and> a_severity a = ''warning''"
    "subseq (map a_flight new) fs" by auto
  show ?case
  proof (cases r)
    case None
    with als ih show ?thesis by auto
  next
    case (Some a)
    with r flight_alert_Some[of f a] als ih show ?thesis by auto
  qed
qed

text \<open>
  Claim C4. Every alert in a result of \<^verbatim>\<open>alerts_list_active\<close> has a non-empty reason and
  the severity \<^verbatim>\<open>warning\<close>; the severity \<^verbatim>\<open>info\<close> is never in the output.
\<close>

theorem alerts_have_reason_and_warning:
  assumes "alerts_list_active webhooks get region = Inr res"
    and "a \<in> set (ar_alerts res)"
  shows "a_reason a \<noteq> [] \<and> a_severity a = ''warning'' \<and> a_severity a \<noteq> ''info''"
proof -
  from assms(1) obtain snapshot fs where
    "py_iter (dict_get_default snapshot ''flights'' (JArr [])) = Inr fs"
    and "collect_alerts fs [] = Inr (ar_alerts res)"
    by (auto simp: alerts_list_active_def alerts_in_def split: sum.splits)
  with collect_alerts_all[of fs "ar_alerts res"] assms(2) show ?thesis by auto
qed

theorem alerts_have_reason_and_warning_witness:
  "alerts_list_active example_webhooks example_get ''region1'' =
     Inr \<lparr>ar_region = JStr ''region1'', ar_snapshot_time = JInt 1700000000,
          ar_fetched_at_iso = JStr ''2023-11-14T22:13:20Z'', ar_alert_count = 1,
          ar_alerts = [\<lparr>a_flight = example_flight,
                        a_reason = ''Unusually low speed at high altitude; Very high descent rate'',
                        a_severity = ''warning''\<rparr>]\<rparr>
   \<and> ''Unusually low speed at high altitude; Very high descent rate'' \<noteq> []
   \<and> ''warning'' \<noteq> ''info''"
  using alerts_have_reason_and_warning[OF example_alerts,
      of "\<lparr>a_flight = example_flight,
           a_reason = ''Unusually low speed at high altitude; Very high descent rate'',
           a_severity = ''warning''\<rparr>"]
  by (simp add: example_alerts)

text \<open>
  Claim C9. The result of \<^verbatim>\<open>alerts_list_active\<close> has \<^verbatim>\<open>alert_count == len(alerts)\<close>, and
  the flights of its alerts are a subsequence of the snapshot's flights: the alerts are
  in the order of the flights that triggered them.
\<close>

theorem alert_count_and_order:
  assumes "fetch_snapshot webhooks get region = Inr snapshot"
    and "alerts_list_active webhooks get region = Inr res"
  shows "ar_alert_count res = int (length (ar_alerts res)) \<and>
         (\<exists>fs. py_iter (dict_get_default snapshot ''flights'' (JArr [])) = Inr fs \<and>
               subseq (map a_flight (ar_alerts res)) fs)"
proof -
  from assms obtain fs where
    fs: "py_iter (dict_get_default snapshot ''flights'' (JArr [])) = Inr fs"
    and c: "collect_alerts fs [] = Inr (ar_alerts res)"
    and n: "ar_alert_count res = int (length (ar_alerts res))"
    by (auto simp: alerts_list_active_def alerts_in_def split: sum.splits)
  from collect_alerts_all[OF c] fs n show ?thesis by auto
qed

theorem alert_count_and_order_witness:
  "(\<exists>snapshot. fetch_snapshot example_webhooks example_get ''region1'' = Inr snapshot \<and>
      py_iter (dict_get_default snapshot ''flights'' (JArr [])) =
        Inr [quiet_flight, example_flight])
   \<and> (\<exists>res. alerts_list_active example_webhooks example_get ''region1'' = Inr res \<and>
         ar_alert_count res = 1 \<and> map a_flight (ar_alerts res) = [example_flight] \<and>
         subseq (map a_flight (ar_alerts res)) [quiet_flight, example_flight])"
  using alert_count_and_order[OF example_fetch example_alerts]
  by (simp add: example_fetch example_alerts dict_get_default_def)

lemma number_truthy: "as_number v = Some (Finite x) \<Longrightarrow> x \<noteq> 0 \<Longrightarrow> truthy v"
  by (cases v) (auto split: if_splits)

lemma py_or_number: "as_number v = Some (Finite x) \<Longrightarrow> x \<noteq> 0 \<Longrightarrow> py_or v w = v"
  by (simp add: py_or_def number_truthy)

lemma flight_alert_low_and_descending:
  assumes "flight_altitude_is d 9000" and "has_number d ''velocity'' 50"
    and "has_number d ''vertical_rate'' (- 25)"
  shows "flight_alert (JObj d) =
     Inr (Some \<lparr>a_flight = JObj d,
                 a_reason = ''Unusually low speed at high altitude; Very high descent rate'',
                 a_severity = ''warning''\<rparr>)"
proof -
  have v: "py_or (dict_get d ''velocity'') (JFloat (Finite 0)) = dict_get d ''velocity''"
    using assms(2) by (simp add: has_number_def py_or_number)
  have vr: "py_or (dict_get d ''vertical_rate'') (JFloat (Finite 0)) = dict_get d ''vertical_rate''"
    using assms(3) by (simp add: has_number_def py_or_number)
  have alt: "as_number (py_or (py_or (dict_get d ''geo_altitude'') (dict_get d ''baro_altitude''))
                           (JFloat (Finite 0))) = Some (Finite 9000)"
    using assms(1) unfolding flight_altitude_is_def has_number_def
    by (auto simp: py_or_number) (simp add: py_or_def number_truthy)
  show ?thesis
    using assms(2,3) alt unfolding flight_alert_def has_number_def
    by (simp add: v vr low_speed_rule_def vertical_rate_rule_def py_gt_def py_lt_def)
qed

text \<open>On flights of the declared shape no comparison of the loop raises.\<close>

lemma optional_float_number:
  assumes "optional_key d k (is_optional is_float)"
  shows "dict_get d k = JNull \<or> (\<exists>n. as_number (dict_get d k) = Some n)"
  using assms
  by (auto simp: optional_key_def dict_get_def split: option.splits
           elim!: is_optional.elims is_float.elims)

lemma py_or_zero_number:
  assumes "v = JNull \<or> (\<exists>n. as_number v = Some n)"
  shows "\<exists>n. as_number (py_or v (JFloat (Finite 0))) = Some n"
  using assms by (auto simp: py_or_def)

lemma py_or_altitude_number:
  assumes "g = JNull \<or> (\<exists>n. as_number g = Some n)"
    and "b = JNull \<or> (\<exists>n. as_number b = Some n)"
  shows "\<exists>n. as_number (py_or (py_or g b) (JFloat (Finite 0))) = Some n"
  using assms by (auto simp: py_or_def)

lemma low_speed_rule_total:
  assumes "as_number alt = Some a" and "as_number v = Some b"
  shows "\<exists>st'. low_speed_rule alt v st = Inr st'"
  using assms by (simp add: low_speed_rule_def py_gt_def py_lt_def split: bool.splits)

lemma vertical_rate_rule_total:
  assumes "as_number vr = Some c"
  shows "\<exists>st'. vertical_rate_rule vr st = Inr st'"
  using assms by (simp add: vertical_rate_rule_def py_gt_def py_lt_def split: bool.splits)

lemma is_Flight_flight_alert:
  assumes "is_Flight f"
  shows "\<exists>r. flight_alert f = Inr r"
proof -
  from assms obtain d where f: "f = JObj d" by (cases f) auto
  from assms f have k: "optional_key d ''velocity'' (is_optional is_float)"
    "optional_key d ''geo_altitude'' (is_optional is_float)"
    "optional_key d ''baro_altitude'' (is_optional is_float)"
    "optional_key d ''vertical_rate'' (is_optional is_float)"
    by simp_all
  obtain b where v: "as_number (py_or (dict_get d ''velocity'') (JFloat (Finite 0))) = Some b"
    using py_or_zero_number[OF optional_float_number[OF k(1)]] by blast
  obtain a where alt:
    "as_number (py_or (py_or (dict_get d ''geo_altitude'') (dict_get d ''baro_altitude''))
                      (JFloat (Finite 0))) = Some a"
    using py_or_altitude_number[OF optional_float_number[OF k(2)] optional_float_number[OF k(3)]]
    by blast
  obtain c where vr: "as_number (py_or (dict_get d ''vertical_rate'') (JFloat (Finite 0))) = Some c"
    using py_or_zero_number[OF optional_float_number[OF k(4)]] by blast
  obtain st1 where s1:
    "low_speed_rule (py_or (py_or (dict_get d ''geo_altitude'') (dict_get d ''baro_altitude''))
                      (JFloat (Finite 0)))
       (py_or (dict_get d ''velocity'') (JFloat (Finite 0))) ([], ''info'') = Inr st1"
    using low_speed_rule_total[OF alt v] by blast
  obtain st2 where s2:
    "vertical_rate_rule (py_or (dict_get d ''vertical_rate'') (JFloat (Finite 0))) st1 = Inr st2"
    using vertical_rate_rule_total[OF vr] by blast
  show ?thesis
    unfolding f flight_alert_def Let_def
    using s1 s2 by (cases st2) simp
qed

lemma collect_alerts_typed:
  "list_all is_Flight fs \<Longrightarrow> \<exists>als. collect_alerts fs [] = Inr als"
proof (induction fs)
  case Nil
  then show ?case by simp
next
  case (Cons f fs)
  then obtain r als where "flight_alert f = Inr r" "collect_alerts fs [] = Inr als"
    using is_Flight_flight_alert[of f] by auto
  then show ?case unfolding collect_alerts_Cons by simp
qed

text \<open>
  A snapshot with the flight of the claim and a flight whose velocity is a text: line 151
  raises on the second flight, and no alert is returned for the first.
\<close>

theorem malformed_velocity_counterexample:
  "fetch_snapshot example_webhooks text_velocity_get ''region1'' =
     Inr [(''region'', JStr ''region1''), (''snapshot_time'', JInt 1700000000),
          (''fetched_at_iso'', JStr ''2023-11-14T22:13:20Z''), (''flight_count'', JInt 2),
          (''flights'', JArr [example_flight, text_velocity_flight])]
   \<and> alerts_list_active example_webhooks text_velocity_get ''region1'' = Inl (TypeError ''<'')"
  by code_simp

text \<open>
  Claim C7, amended. On a snapshot of the declared shape, a flight at altitude 9000 with
  velocity 50 and vertical rate \<open>-25\<close> gets exactly one alert: \<^verbatim>\<open>alerts_list_active\<close>
  returns a result that holds, between the alerts of the flights before it and those of
  the flights after it, one alert for this flight, whose reason joins the low-speed and
  the descent reason and whose severity is \<^verbatim>\<open>warning\<close>.
\<close>

theorem low_speed_descending_flight_one_alert:
  assumes "fetch_snapshot webhooks get region = Inr snapshot"
    and "is_Snapshot snapshot"
    and "map_of snapshot ''flights'' = Some (JArr (before @ JObj d # after))"
    and "flight_altitude_is d 9000"
    and "has_number d ''velocity'' 50"
    and "has_number d ''vertical_rate'' (- 25)"
  shows "\<exists>r t i a b.
           collect_alerts before [] = Inr a \<and> collect_alerts after [] = Inr b \<and>
           alerts_list_active webhooks get region =
             Inr \<lparr>ar_region = r, ar_snapshot_time = t, ar_fetched_at_iso = i,
                  ar_alert_count = int (length a) + 1 + int (length b),
                  ar_alerts =
                    a @ [\<lparr>a_flight = JObj d,
                           a_reason = ''Unusually low speed at high altitude; Very high descent rate'',
                           a_severity = ''warning''\<rparr>] @ b\<rparr>"
proof -
  from assms(2) obtain r t i fs where k: "map_of snapshot ''region'' = Some r"
    "map_of snapshot ''snapshot_time'' = Some t"
    "map_of snapshot ''fetched_at_iso'' = Some i" "map_of snapshot ''flights'' = Some (JArr fs)"
    "list_all is_Flight fs"
    by (rule is_Snapshot_keys)
  with assms(3) have fs: "fs = before @ JObj d # after" by simp
  with k(5) have "list_all is_Flight before" "list_all is_Flight after" by simp_all
  then obtain a b where a: "collect_alerts before [] = Inr a" and b: "collect_alerts after [] = Inr b"
    using collect_alerts_typed by blast
  let ?alert = "\<lparr>a_flight = JObj d,
                  a_reason = ''Unusually low speed at high altitude; Very high descent rate'',
                  a_severity = ''warning''\<rparr>"
  have c: "collect_alerts (before @ JObj d # after) [] = Inr (a @ [?alert] @ b)"
    unfolding collect_alerts_append collect_alerts_Cons
    using a b flight_alert_low_and_descending[OF assms(4,5,6)] by simp
  have "alerts_list_active webhooks get region =
             Inr \<lparr>ar_region = r, ar_snapshot_time = t, ar_fetched_at_iso = i,
                  ar_alert_count = int (length a) + 1 + int (length b),
                  ar_alerts = a @ [?alert] @ b\<rparr>"
    using assms(1,3) k(1,2,3) c
    by (simp add: alerts_list_active_def alerts_in_def dict_get_default_def getitem_def)
  with a b show ?thesis by blast
qed

theorem low_speed_descending_flight_one_alert_witness:
  "alerts_list_active example_webhooks example_get ''region1'' =
     Inr \<lparr>ar_region = JStr ''region1'', ar_snapshot_time = JInt 1700000000,
          ar_fetched_at_iso = JStr ''2023-11-14T22:13:20Z'', ar_alert_count = 1,
          ar_alerts = [\<lparr>a_flight = example_flight,
                        a_reason = ''Unusually low speed at high altitude; Very high descent rate'',
                        a_severity = ''warning''\<rparr>]\<rparr>
   \<and> alerts_list_active example_webhooks baro_only_get ''region1'' =
     Inr \<lparr>ar_region = JStr ''region1'', ar_snapshot_time = JInt 1700000000,
          ar_fetched_at_iso = JStr ''2023-11-14T22:13:20Z'', ar_alert_count = 1,
          ar_alerts = [\<lparr>a_flight = baro_only_flight,
                        a_reason = ''Unusually low speed at high altitude; Very high descent rate'',
                        a_severity = ''warning''\<rparr>]\<rparr>"
proof -
  let ?d = "[(''icao24'', JStr ''760a1b''), (''callsign'', JStr ''PIA293''),
           (''origin_country'', JStr ''Pakistan''),
           (''baro_altitude'', JFloat (Finite 8900)), (''on_ground'', JBool False),
           (''velocity'', JInt 50), (''vertical_rate'', JFloat (Finite (- 25))),
           (''geo_altitude'', JFloat (Finite 9000))]"
  let ?b = "[(''icao24'', JStr ''71be12''), (''callsign'', JStr ''KAL902''),
           (''baro_altitude'', JInt 9000), (''velocity'', JFloat (Finite 50)),
           (''vertical_rate'', JInt (- 25))]"
  let ?s = "[(''region'', JStr ''region1''), (''snapshot_time'', JInt 1700000000),
           (''fetched_at_iso'', JStr ''2023-11-14T22:13:20Z''), (''flight_count'', JInt 1),
           (''flights'', JArr [baro_only_flight])]"
  have f: "map_of [(''region'', JStr ''region1''), (''snapshot_time'', JInt 1700000000),
           (''fetched_at_iso'', JStr ''2023-11-14T22:13:20Z''), (''flight_count'', JInt 2),
           (''flights'', JArr [quiet_flight, example_flight])] ''flights''
         = Some (JArr ([quiet_flight] @ JObj ?d # []))"
    by (simp add: example_flight_def)
  have 3: "flight_altitude_is ?d 9000"
    by (simp add: flight_altitude_is_def has_number_def dict_get_def)
  have 4: "has_number ?d ''velocity'' 50" by (simp add: has_number_def dict_get_def)
  have 5: "has_number ?d ''vertical_rate'' (- 25)" by (simp add: has_number_def dict_get_def)
  have b1: "fetch_snapshot example_webhooks baro_only_get ''region1'' = Inr ?s"
    by code_simp
  have b2: "is_Snapshot ?s" by code_simp
  have bf: "map_of ?s ''flights'' = Some (JArr ([] @ JObj ?b # []))"
    by (simp add: baro_only_flight_def)
  have b3: "flight_altitude_is ?b 9000"
    by (simp add: flight_altitude_is_def has_number_def dict_get_def)
  have b4: "has_number ?b ''velocity'' 50" by (simp add: has_number_def dict_get_def)
  have b5: "has_number ?b ''vertical_rate'' (- 25)" by (simp add: has_number_def dict_get_def)
  have v: "alerts_list_active example_webhooks baro_only_get ''region1'' =
     Inr \<lparr>ar_region = JStr ''region1'', ar_snapshot_time = JInt 1700000000,
          ar_fetched_at_iso = JStr ''2023-11-14T22:13:20Z'', ar_alert_count = 1,
          ar_alerts = [\<lparr>a_flight = baro_only_flight,
                        a_reason = ''Unusually low speed at high altitude; Very high descent rate'',
                        a_severity = ''warning''\<rparr>]\<rparr>"
    by code_simp
  from low_speed_descending_flight_one_alert[OF example_fetch example_is_Snapshot f 3 4 5]
    low_speed_descending_flight_one_alert[OF b1 b2 bf b3 b4 b5]
  show ?thesis by (simp only: example_alerts v simp_thms)
qed

text \<open>
  Claim C5. A flight whose geometric altitude is present and equal to 0, with a
  barometric altitude of 9000 and a velocity of 50: line 144 takes the barometric
  altitude, and the low-speed rule fires. With the geometric altitude, 0, it would not:
  the same flight without its barometric altitude gets no alert.
\<close>

theorem zero_geometric_altitude_falls_back_to_barometric:
  "alerts_list_active example_webhooks zero_geo_get ''region1'' =
     Inr \<lparr>ar_region = JStr ''region1'', ar_snapshot_time = JInt 1700000000,
          ar_fetched_at_iso = JStr ''2023-11-14T22:13:20Z'', ar_alert_count = 1,
          ar_alerts = [\<lparr>a_flight = zero_geo_flight,
                        a_reason = ''Unusually low speed at high altitude'',
                        a_severity = ''warning''\<rparr>]\<rparr>
   \<and> flight_alert
         (JObj [(''icao24'', JStr ''3c6444''), (''callsign'', JStr ''DLH400''),
                (''velocity'', JFloat (Finite 50)), (''vertical_rate'', JFloat (Finite 0)),
                (''geo_altitude'', JFloat (Finite 0))]) = Inr None"
  by (simp add: alerts_list_active_def fetch_snapshot_def example_webhooks_def REGION_WEBHOOKS_def
      zero_geo_get_def raise_for_status_def backfill_def alerts_in_def py_defs flight_alert_def
      zero_geo_flight_def low_speed_rule_def vertical_rate_rule_def)

text \<open>
  The rest of what line 143 to 145 do: an absent or null field counts as 0, so a flight
  with none of the four fields triggers no rule; and a geometric altitude other than 0
  is the altitude of the flight.
\<close>

lemma missing_field_evaluates_as_zero:
  assumes "dict_get d k = JNull"
  shows "py_or (dict_get d k) (JFloat (Finite 0)) = JFloat (Finite 0)"
  using assms by (simp add: py_or_def)

lemma missing_altitudes_evaluate_as_zero:
  assumes "dict_get d ''geo_altitude'' = JNull" and "dict_get d ''baro_altitude'' = JNull"
  shows "py_or (py_or (dict_get d ''geo_altitude'') (dict_get d ''baro_altitude''))
               (JFloat (Finite 0)) = JFloat (Finite 0)"
  using assms by (simp add: py_or_def)

lemma flight_without_fields_no_alert:
  assumes "dict_get d ''velocity'' = JNull" and "dict_get d ''geo_altitude'' = JNull"
    and "dict_get d ''baro_altitude'' = JNull" and "dict_get d ''vertical_rate'' = JNull"
  shows "flight_alert (JObj d) = Inr None"
  using assms
  by (simp add: flight_alert_def py_or_def low_speed_rule_def vertical_rate_rule_def
      py_gt_def py_lt_def)

lemma geometric_altitude_used_when_nonzero:
  assumes "as_number (dict_get d ''geo_altitude'') = Some (Finite x)" and "x \<noteq> 0"
  shows "py_or (py_or (dict_get d ''geo_altitude'') (dict_get d ''baro_altitude''))
               (JFloat (Finite 0)) = dict_get d ''geo_altitude''"
  using assms by (simp add: py_or_number)

section \<open>Properties of the agents\<close>

subsection \<open>The completion service and the state\<close>

lemma create_Inr:
  assumes "create E req s = (Inr m, s1)"
  shows "requests_sent s1 = requests_sent s @ [req] \<and> dispatches s1 = dispatches s"
  using assms
  by (auto simp: create_def client_def split: if_splits option.splits prod.splits sum.splits)

lemma create_Inr_client:
  assumes "create E req s = (Inr m, s1)"
  shows "client_created s1"
  using assms
  by (auto simp: create_def client_def split: if_splits option.splits prod.splits sum.splits)

lemma create_with_client:
  assumes "client_created s"
  shows "create E req s =
           (chat_completions_create E (requests_sent s) req,
            s\<lparr>requests_sent := requests_sent s @ [req]\<rparr>)"
  using assms by (simp add: create_def client_def)

lemma tool_result_of_state:
  assumes "tool_result_of E al name args s = (r, s1)"
  shows "requests_sent s1 = requests_sent s \<and> client_created s1 = client_created s \<and>
         dispatches s1 = dispatches s + (if allowed al name then 1 else 0)"
  using assms by (auto simp: tool_result_of_def split: if_splits sum.splits)

lemma run_tool_calls_requests:
  "run_tool_calls E al calls messages s = (r, s1) \<Longrightarrow>
     requests_sent s1 = requests_sent s \<and> client_created s1 = client_created s"
proof (induction calls arbitrary: messages s)
  case Nil
  then show ?case by simp
next
  case (Cons call calls)
  show ?case
  proof (cases "json_loads (fn_arguments call)")
    case (Inl e)
    with Cons.prems show ?thesis by simp
  next
    case (Inr args)
    obtain tr s' where t: "tool_result_of E al (fn_name call) args s = (tr, s')"
      by (cases "tool_result_of E al (fn_name call) args s")
    with Cons.prems Inr have
      "run_tool_calls E al calls (messages @ [ToolMessage (call_id call) (fn_name call) tr]) s'
         = (r, s1)"
      by simp
    from Cons.IH[OF this] tool_result_of_state[OF t] show ?thesis by simp
  qed
qed

subsection \<open>The tool-calling loop\<close>

text \<open>
  When the arguments of every call parse, the loop of lines 162 to 185 ends normally. It
  appends one tool message for each call, in order; the result of a call to a tool
  outside the allow-list is the literal error, and no dispatch happens for it; the
  result of any other call is the payload of the dispatch, or the error that it raised.
\<close>

lemma run_tool_calls_parsed:
  assumes "\<forall>c \<in> set calls. fn_arguments c \<noteq> ArgsMalformed"
  shows "\<exists>results s1.
           run_tool_calls E al calls messages s = (Inr (messages @ tool_messages calls results), s1) \<and>
           length results = length calls \<and>
           dispatches s1 = dispatches s + dispatched_before al calls (length calls) \<and>
           (\<forall>i < length calls. \<forall>args. json_loads (fn_arguments (calls ! i)) = Inr args \<longrightarrow>
              (\<not> allowed al (fn_name (calls ! i)) \<longrightarrow>
                 results ! i = ErrorDict (Literal (''Tool '' @ fn_name (calls ! i)
                                                    @ '' is not allowed for this agent.''))) \<and>
              (allowed al (fn_name (calls ! i)) \<longrightarrow>
                 results ! i =
                   (case execute_tool E (dispatches s + dispatched_before al calls i)
                           (fn_name (calls ! i)) args of
                      Inl e \<Rightarrow> ErrorDict (StrOf e)
                    | Inr p \<Rightarrow> Payload p)))"
  using assms
proof (induction calls arbitrary: messages s)
  case Nil
  then show ?case by (simp add: tool_messages_def dispatched_before_def)
next
  case (Cons call calls)
  from Cons.prems obtain args where args: "json_loads (fn_arguments call) = Inr args"
    by (cases "fn_arguments call") (auto simp: json_loads_def)
  obtain tr s' where t: "tool_result_of E al (fn_name call) args s = (tr, s')"
    by (cases "tool_result_of E al (fn_name call) args s")
  from Cons.prems have "\<forall>c \<in> set calls. fn_arguments c \<noteq> ArgsMalformed" by simp
  from Cons.IH[OF this, of "messages @ [ToolMessage (call_id call) (fn_name call) tr]" s']
  obtain results s1 where
    run: "run_tool_calls E al calls (messages @ [ToolMessage (call_id call) (fn_name call) tr]) s'
            = (Inr ((messages @ [ToolMessage (call_id call) (fn_name call) tr])
                     @ tool_messages calls results), s1)" and
    len: "length results = length calls" and
    disp: "dispatches s1 = dispatches s' + dispatched_before al calls (length calls)" and
    each: "\<forall>i < length calls. \<forall>args. json_loads (fn_arguments (calls ! i)) = Inr args \<longrightarrow>
              (\<not> allowed al (fn_name (calls ! i)) \<longrightarrow>
                 results ! i = ErrorDict (Literal (''Tool '' @ fn_name (calls ! i)
                                                    @ '' is not allowed for this agent.''))) \<and>
              (allowed al (fn_name (calls ! i)) \<longrightarrow>
                 results ! i =
                   (case execute_tool E (dispatches s' + dispatched_before al calls i)
                           (fn_name (calls ! i)) args of
                      Inl e \<Rightarrow> ErrorDict (StrOf e)
                    | Inr p \<Rightarrow> Payload p))"
    by blast
  have ds': "dispatches s' = dispatches s + (if allowed al (fn_name call) then 1 else 0)"
    using tool_result_of_state[OF t] by simp
  have shift: "dispatched_before al (call # calls) (Suc i) =
                 (if allowed al (fn_name call) then 1 else 0) + dispatched_before al calls i" for i
    by (simp add: dispatched_before_def)
  have tr: "(\<not> allowed al (fn_name call) \<longrightarrow>
               tr = ErrorDict (Literal (''Tool '' @ fn_name call @ '' is not allowed for this agent.''))) \<and>
            (allowed al (fn_name call) \<longrightarrow>
               tr = (case execute_tool E (dispatches s) (fn_name call) args of
                       Inl e \<Rightarrow> ErrorDict (StrOf e) | Inr p \<Rightarrow> Payload p))"
    using t by (auto simp: tool_result_of_def split: sum.splits)
  have 1: "run_tool_calls E al (call # calls) messages s =
             (Inr (messages @ tool_messages (call # calls) (tr # results)), s1)"
    using args t run by (simp add: tool_messages_def)
  have 2: "length (tr # results) = length (call # calls)" using len by simp
  have 3: "dispatches s1 = dispatches s + dispatched_before al (call # calls) (length (call # calls))"
    using disp ds' by (simp add: shift)
  have 4: "\<forall>i < length (call # calls). \<forall>a. json_loads (fn_arguments ((call # calls) ! i)) = Inr a \<longrightarrow>
              (\<not> allowed al (fn_name ((call # calls) ! i)) \<longrightarrow>
                 (tr # results) ! i = ErrorDict (Literal (''Tool '' @ fn_name ((call # calls) ! i)
                                                    @ '' is not allowed for this agent.''))) \<and>
              (allowed al (fn_name ((call # calls) ! i)) \<longrightarrow>
                 (tr # results) ! i =
                   (case execute_tool E (dispatches s + dispatched_before al (call # calls) i)
                           (fn_name ((call # calls) ! i)) a of
                      Inl e \<Rightarrow> ErrorDict (StrOf e)
                    | Inr p \<Rightarrow> Payload p))"
  proof (intro allI impI)
    fix i a
    assume i: "i < length (call # calls)"
      and a: "json_loads (fn_arguments ((call # calls) ! i)) = Inr a"
    show "(\<not> allowed al (fn_name ((call # calls) ! i)) \<longrightarrow>
                 (tr # results) ! i = ErrorDict (Literal (''Tool '' @ fn_name ((call # calls) ! i)
                                                    @ '' is not allowed for this agent.''))) \<and>
              (allowed al (fn_name ((call # calls) ! i)) \<longrightarrow>
                 (tr # results) ! i =
                   (case execute_tool E (dispatches s + dispatched_before al (call # calls) i)
                           (fn_name ((call # calls) ! i)) a of
                      Inl e \<Rightarrow> ErrorDict (StrOf e)
                    | Inr p \<Rightarrow> Payload p))"
    proof (cases i)
      case 0
      with a args have "a = args" by simp
      with 0 tr show ?thesis by (simp add: dispatched_before_def)
    next
      case (Suc j)
      with i have j: "j < length calls" by simp
      from Suc a have "json_loads (fn_arguments (calls ! j)) = Inr a" by simp
      with each j have
        "(\<not> allowed al (fn_name (calls ! j)) \<longrightarrow>
                 results ! j = ErrorDict (Literal (''Tool '' @ fn_name (calls ! j)
                                                    @ '' is not allowed for this agent.''))) \<and>
              (allowed al (fn_name (calls ! j)) \<longrightarrow>
                 results ! j =
                   (case execute_tool E (dispatches s' + dispatched_before al calls j)
                           (fn_name (calls ! j)) a of
                      Inl e \<Rightarrow> ErrorDict (StrOf e)
                    | Inr p \<Rightarrow> Payload p))"
        by blast
      then show ?thesis
        unfolding Suc shift ds' by (simp add: add.assoc)
    qed
  qed
  from 1 2 3 4 show ?case by blast
qed

text \<open>Evaluation of the loop on the sample replies.\<close>

lemma scripted_create:
  "create (api_env scripted_reply)
      (first_request traveler_system example_question (Some [''flights_get_by_callsign'']))
      initial_state =
     (Inr \<lparr>msg_content = None,
           msg_tool_calls = Some [lookup_call, forbidden_call, unknown_region_call]\<rparr>,
      \<lparr>client_created = True,
       requests_sent =
         [first_request traveler_system example_question (Some [''flights_get_by_callsign''])],
       dispatches = 0\<rparr>)"
  by code_simp

lemma scripted_run:
  "run_tool_calling_chat (api_env scripted_reply) traveler_system example_question
       (Some [''flights_get_by_callsign'']) initial_state =
     (Inr ''PIA293 is descending fast at low speed; please check with the crew.'',
      \<lparr>client_created = True,
       requests_sent =
         [first_request traveler_system example_question (Some [''flights_get_by_callsign'']),
          \<lparr>req_model = MODEL_NAME,
           req_messages =
             [RoleMessage ''system'' traveler_system,
              RoleMessage ''user'' example_question,
              AssistantMessage
                \<lparr>msg_content = None,
                 msg_tool_calls = Some [lookup_call, forbidden_call, unknown_region_call]\<rparr>,
              ToolMessage ''call_1'' ''flights_get_by_callsign''
                (Payload (LookupPayload
                   \<lparr>lr_region = JStr ''region1'', lr_snapshot_time = JInt 1700000000,
                    lr_fetched_at_iso = JStr ''2023-11-14T22:13:20Z'',
                    lr_flight = Some example_flight,
                    lr_message = ''Found flight  pia293  in region1''\<rparr>)),
              ToolMessage ''call_2'' ''alerts_list_active''
                (ErrorDict (Literal ''Tool alerts_list_active is not allowed for this agent.'')),
              ToolMessage ''call_3'' ''flights_get_by_callsign''
                (ErrorDict (StrOf (UnknownRegion (JStr ''region9'') [''region1''])))],
           req_tools = None, req_tool_choice = None\<rparr>],
       dispatches = 2\<rparr>)"
  by code_simp

text \<open>
  The model answers with two calls, the second with arguments that are not JSON. Line
  165 raises outside the \<^verbatim>\<open>try\<close> block: the run ends with the exception after one
  dispatch, with no tool message for the second call and no second completion call.
\<close>

theorem malformed_arguments_counterexample:
  "run_tool_calling_chat (api_env malformed_reply) traveler_system example_question
       (Some [''flights_get_by_callsign'']) initial_state =
     (Inl JSONDecodeError,
      \<lparr>client_created = True,
       requests_sent =
         [first_request traveler_system example_question (Some [''flights_get_by_callsign''])],
       dispatches = 1\<rparr>)"
  by code_simp

text \<open>
  Claim C2, amended. When the first response carries tool calls whose arguments all
  parse, \<^verbatim>\<open>run_tool_calling_chat\<close> appends exactly one tool message for each call, in the
  order received and with the id of its call. A call to a tool outside the allow-list
  is not dispatched and gets the error result; a dispatch that raises gets the result
  \<^verbatim>\<open>{error: str(e)}\<close>. Then the second completion call is made, on the conversation
  with all the tool messages, and its content is the answer.
\<close>

theorem tool_calls_answered_then_second_completion:
  assumes "create E (first_request system_prompt user_query allowed_tools) s = (Inr message, s1)"
    and "msg_tool_calls message = Some calls"
    and "calls \<noteq> []"
    and "\<forall>c \<in> set calls. fn_arguments c \<noteq> ArgsMalformed"
  shows "\<exists>results s2.
           length results = length calls \<and>
           (\<forall>i < length calls. \<forall>args. json_loads (fn_arguments (calls ! i)) = Inr args \<longrightarrow>
              (\<not> allowed allowed_tools (fn_name (calls ! i)) \<longrightarrow>
                 results ! i = ErrorDict (Literal (''Tool '' @ fn_name (calls ! i)
                                                    @ '' is not allowed for this agent.''))) \<and>
              (allowed allowed_tools (fn_name (calls ! i)) \<longrightarrow>
                 results ! i =
                   (case execute_tool E (dispatches s1 + dispatched_before allowed_tools calls i)
                           (fn_name (calls ! i)) args of
                      Inl e \<Rightarrow> ErrorDict (StrOf e)
                    | Inr p \<Rightarrow> Payload p))) \<and>
           dispatches s2 = dispatches s + dispatched_before allowed_tools calls (length calls) \<and>
           requests_sent s2 =
             requests_sent s @
               [first_request system_prompt user_query allowed_tools,
                \<lparr>req_model = MODEL_NAME,
                 req_messages =
                   req_messages (first_request system_prompt user_query allowed_tools)
                     @ [AssistantMessage message] @ tool_messages calls results,
                 req_tools = None, req_tool_choice = None\<rparr>] \<and>
           run_tool_calling_chat E system_prompt user_query allowed_tools s =
             (map_sum id content_or_empty
                (chat_completions_create E
                   (requests_sent s @ [first_request system_prompt user_query allowed_tools])
                   \<lparr>req_model = MODEL_NAME,
                    req_messages =
                      req_messages (first_request system_prompt user_query allowed_tools)
                        @ [AssistantMessage message] @ tool_messages calls results,
                    req_tools = None, req_tool_choice = None\<rparr>),
              s2)"
proof -
  let ?req = "first_request system_prompt user_query allowed_tools"
  let ?messages = "req_messages ?req @ [AssistantMessage message]"
  from run_tool_calls_parsed[OF assms(4), of E allowed_tools ?messages s1]
  obtain results s2 where
    run: "run_tool_calls E allowed_tools calls ?messages s1
            = (Inr (?messages @ tool_messages calls results), s2)" and
    len: "length results = length calls" and
    disp: "dispatches s2 = dispatches s1 + dispatched_before allowed_tools calls (length calls)" and
    each: "\<forall>i < length calls. \<forall>args. json_loads (fn_arguments (calls ! i)) = Inr args \<longrightarrow>
              (\<not> allowed allowed_tools (fn_name (calls ! i)) \<longrightarrow>
                 results ! i = ErrorDict (Literal (''Tool '' @ fn_name (calls ! i)
                                                    @ '' is not allowed for this agent.''))) \<and>
              (allowed allowed_tools (fn_name (calls ! i)) \<longrightarrow>
                 results ! i =
                   (case execute_tool E (dispatches s1 + dispatched_before allowed_tools calls i)
                           (fn_name (calls ! i)) args of
                      Inl e \<Rightarrow> ErrorDict (StrOf e)
                    | Inr p \<Rightarrow> Payload p))"
    by blast
  let ?req2 = "\<lparr>req_model = MODEL_NAME,
                 req_messages = ?messages @ tool_messages calls results,
                 req_tools = None, req_tool_choice = None\<rparr>"
  let ?s3 = "s2\<lparr>requests_sent := requests_sent s2 @ [?req2]\<rparr>"
  have s1: "requests_sent s1 = requests_sent s @ [?req]" "dispatches s1 = dispatches s"
    using create_Inr[OF assms(1)] by simp_all
  have s2: "requests_sent s2 = requests_sent s1" "client_created s2"
    using run_tool_calls_requests[OF run] create_Inr_client[OF assms(1)] by simp_all
  have c2: "create E ?req2 s2 = (chat_completions_create E (requests_sent s2) ?req2, ?s3)"
    using create_with_client[OF s2(2)] by simp
  obtain call rest where calls: "calls = call # rest"
    using assms(3) by (cases calls) auto
  have chat: "run_tool_calling_chat E system_prompt user_query allowed_tools s =
          (map_sum id content_or_empty (chat_completions_create E (requests_sent s2) ?req2), ?s3)"
    unfolding run_tool_calling_chat_def Let_def
    using assms(1,2) run c2 unfolding calls
    by (simp split: sum.splits)
  have "length results = length calls" by (rule len)
  moreover note each
  moreover have "dispatches ?s3 = dispatches s + dispatched_before allowed_tools calls (length calls)"
    using disp s1 by simp
  moreover have "requests_sent ?s3 = requests_sent s @ [?req, ?req2]"
    using s1 s2 by simp
  moreover have "run_tool_calling_chat E system_prompt user_query allowed_tools s =
          (map_sum id content_or_empty
             (chat_completions_create E (requests_sent s @ [?req]) ?req2), ?s3)"
    using chat s1 s2 by simp
  ultimately show ?thesis
    by (intro exI[of _ results] exI[of _ ?s3]) simp
qed

theorem tool_calls_answered_then_second_completion_witness:
  "run_tool_calling_chat (api_env scripted_reply) traveler_system example_question
       (Some [''flights_get_by_callsign'']) initial_state =
     (Inr ''PIA293 is descending fast at low speed; please check with the crew.'',
      \<lparr>client_created = True,
       requests_sent =
         [first_request traveler_system example_question (Some [''flights_get_by_callsign'']),
          \<lparr>req_model = MODEL_NAME,
           req_messages =
             [RoleMessage ''system'' traveler_system,
              RoleMessage ''user'' example_question,
              AssistantMessage
                \<lparr>msg_content = None,
                 msg_tool_calls = Some [lookup_call, forbidden_call, unknown_region_call]\<rparr>,
              ToolMessage ''call_1'' ''flights_get_by_callsign''
                (Payload (LookupPayload
                   \<lparr>lr_region = JStr ''region1'', lr_snapshot_time = JInt 1700000000,
                    lr_fetched_at_iso = JStr ''2023-11-14T22:13:20Z'',
                    lr_flight = Some example_flight,
                    lr_message = ''Found flight  pia293  in region1''\<rparr>)),
              ToolMessage ''call_2'' ''alerts_list_active''
                (ErrorDict (Literal ''Tool alerts_list_active is not allowed for this agent.'')),
              ToolMessage ''call_3'' ''flights_get_by_callsign''
                (ErrorDict (StrOf (UnknownRegion (JStr ''region9'') [''region1''])))],
           req_tools = None, req_tool_choice = None\<rparr>],
       dispatches = 2\<rparr>)"
proof -
  have 2: "msg_tool_calls \<lparr>msg_content = None,
             msg_tool_calls = Some [lookup_call, forbidden_call, unknown_region_call]\<rparr>
           = Some [lookup_call, forbidden_call, unknown_region_call]"
    by simp
  have 3: "[lookup_call, forbidden_call, unknown_region_call] \<noteq> []" by simp
  have 4: "\<forall>c \<in> set [lookup_call, forbidden_call, unknown_region_call].
             fn_arguments c \<noteq> ArgsMalformed"
    by (simp add: lookup_call_def forbidden_call_def unknown_region_call_def)
  from tool_calls_answered_then_second_completion[OF scripted_create 2 3 4]
  show ?thesis by (simp only: scripted_run)
qed

subsection \<open>The orchestrator\<close>

text \<open>
  A run of the loop that returns an answer has sent one request, or two when the first
  response carried tool calls.
\<close>

lemma run_tool_calling_chat_requests:
  assumes "run_tool_calling_chat E system_prompt user_query allowed_tools s = (Inr answer, s')"
  shows "length (requests_sent s') =
           length (requests_sent s) +
             (if requests_tools E (first_request system_prompt user_query allowed_tools) s
              then 2 else 1)"
proof -
  let ?req = "first_request system_prompt user_query allowed_tools"
  obtain r s1 where c: "create E ?req s = (r, s1)" by (cases "create E ?req s")
  with assms obtain message where r: "r = Inr message"
    by (cases r) (auto simp: run_tool_calling_chat_def Let_def)
  note s1 = create_Inr[OF c[unfolded r]]
  show ?thesis
  proof (cases "requests_tools E ?req s")
    case False
    with c r have "msg_tool_calls message = None \<or> msg_tool_calls message = Some []"
      by (auto simp: requests_tools_def split: option.splits list.splits)
    with assms c r have "s' = s1"
      by (auto simp: run_tool_calling_chat_def Let_def)
    with s1 False show ?thesis by simp
  next
    case True
    with c r obtain call calls where tc: "msg_tool_calls message = Some (call # calls)"
      by (auto simp: requests_tools_def split: option.splits list.splits)
    let ?messages = "req_messages ?req @ [AssistantMessage message]"
    obtain r2 s2 where run: "run_tool_calls E allowed_tools (call # calls) ?messages s1 = (r2, s2)"
      by (cases "run_tool_calls E allowed_tools (call # calls) ?messages s1")
    with assms c r tc obtain messages2 where r2: "r2 = Inr messages2"
      by (cases r2) (auto simp: run_tool_calling_chat_def Let_def)
    let ?req2 = "\<lparr>req_model = MODEL_NAME, req_messages = messages2,
                   req_tools = None, req_tool_choice = None\<rparr>"
    obtain r3 s3 where c2: "create E ?req2 s2 = (r3, s3)" by (cases "create E ?req2 s2")
    with assms c r tc run r2 obtain final where r3: "r3 = Inr final" and s': "s' = s3"
      by (cases r3) (auto simp: run_tool_calling_chat_def Let_def)
    from create_Inr[OF c2[unfolded r3]] run_tool_calls_requests[OF run] s1 s' True
    show ?thesis by simp
  qed
qed

text \<open>
  Both roles use tools, once each: the orchestrator sends five requests to the
  completion service, not three. The first request of each role offers tools, its
  follow-up and the synthesis do not.
\<close>

theorem orchestrator_three_calls_counterexample:
  "fst (traveler_with_ops (api_env scripted_reply) ''PIA293'' example_question initial_state) =
     Inr ''PIA293 is descending fast at low speed; please check with the crew.''
   \<and> length (requests_sent
        (snd (traveler_with_ops (api_env scripted_reply) ''PIA293'' example_question
                initial_state))) = 5
   \<and> map req_tool_choice
        (requests_sent
           (snd (traveler_with_ops (api_env scripted_reply) ''PIA293'' example_question
                   initial_state))) =
       [Some ''auto'', None, Some ''auto'', None, None]"
  by code_simp

text \<open>
  Claim C6, amended. A run of \<^verbatim>\<open>traveler_with_ops\<close> that returns an answer makes three
  completion calls (the first call of the Traveler role, the first call of the Ops role,
  the synthesis) and one more for each role whose first response carries tool calls.
\<close>

theorem orchestrator_completion_calls:
  assumes "traveler_with_ops E callsign passenger_question s = (Inr answer, s')"
  shows "\<exists>traveler_reply s1.
           traveler_agent E (base_question callsign passenger_question) s
             = (Inr traveler_reply, s1) \<and>
           length (requests_sent s') =
             length (requests_sent s) + 3
             + (if requests_tools E
                     (first_request traveler_system (base_question callsign passenger_question)
                        (Some [''flights_get_by_callsign''])) s
                then 1 else 0)
             + (if requests_tools E
                     (first_request ops_system (ops_prompt callsign)
                        (Some [''flights_list_region_snapshot'', ''alerts_list_active''])) s1
                then 1 else 0)"
proof -
  obtain r1 s1 where t: "traveler_agent E (base_question callsign passenger_question) s = (r1, s1)"
    by (cases "traveler_agent E (base_question callsign passenger_question) s")
  with assms obtain traveler_reply where r1: "r1 = Inr traveler_reply"
    by (cases r1) (auto simp: traveler_with_ops_def)
  obtain r2 s2 where ops: "ops_agent E (ops_prompt callsign) s1 = (r2, s2)"
    by (cases "ops_agent E (ops_prompt callsign) s1")
  with assms t r1 obtain ops_reply where r2: "r2 = Inr ops_reply"
    by (cases r2) (auto simp: traveler_with_ops_def)
  let ?req = "synthesis_request callsign passenger_question traveler_reply ops_reply"
  obtain r3 s3 where c: "create E ?req s2 = (r3, s3)" by (cases "create E ?req s2")
  with assms t r1 ops r2 obtain final where r3: "r3 = Inr final" and s': "s' = s3"
    by (cases r3) (auto simp: traveler_with_ops_def)
  from run_tool_calling_chat_requests[OF t[unfolded traveler_agent_def r1]]
    run_tool_calling_chat_requests[OF ops[unfolded ops_agent_def r2]]
    create_Inr[OF c[unfolded r3]] s'
  have "length (requests_sent s') =
             length (requests_sent s) + 3
             + (if requests_tools E
                     (first_request traveler_system (base_question callsign passenger_question)
                        (Some [''flights_get_by_callsign''])) s
                then 1 else 0)
             + (if requests_tools E
                     (first_request ops_system (ops_prompt callsign)
                        (Some [''flights_list_region_snapshot'', ''alerts_list_active''])) s1
                then 1 else 0)"
    by simp
  with t r1 show ?thesis by blast
qed

theorem orchestrator_completion_calls_witness:
  "traveler_with_ops (api_env direct_reply) ''PIA293'' example_question initial_state =
     (Inr ''PIA293 is descending fast at low speed; please check with the crew.'',
      \<lparr>client_created = True,
       requests_sent =
         [first_request traveler_system (base_question ''PIA293'' example_question)
            (Some [''flights_get_by_callsign'']),
          first_request ops_system (ops_prompt ''PIA293'')
            (Some [''flights_list_region_snapshot'', ''alerts_list_active'']),
          synthesis_request ''PIA293'' example_question
            ''PIA293 is descending fast at low speed; please check with the crew.''
            ''PIA293 is descending fast at low speed; please check with the crew.''],
       dispatches = 0\<rparr>)
   \<and> length (requests_sent
        (snd (traveler_with_ops (api_env scripted_reply) ''PIA293'' example_question
                initial_state))) = 3 + 1 + 1"
proof -
  have d: "traveler_with_ops (api_env direct_reply) ''PIA293'' example_question initial_state =
     (Inr ''PIA293 is descending fast at low speed; please check with the crew.'',
      \<lparr>client_created = True,
       requests_sent =
         [first_request traveler_system (base_question ''PIA293'' example_question)
            (Some [''flights_get_by_callsign'']),
          first_request ops_system (ops_prompt ''PIA293'')
            (Some [''flights_list_region_snapshot'', ''alerts_list_active'']),
          synthesis_request ''PIA293'' example_question
            ''PIA293 is descending fast at low speed; please check with the crew.''
            ''PIA293 is descending fast at low speed; please check with the crew.''],
       dispatches = 0\<rparr>)"
    by code_simp
  have s: "traveler_with_ops (api_env scripted_reply) ''PIA293'' example_question initial_state =
     (Inr ''PIA293 is descending fast at low speed; please check with the crew.'',
      snd (traveler_with_ops (api_env scripted_reply) ''PIA293'' example_question
             initial_state))"
    by code_simp
  have n: "length (requests_sent
        (snd (traveler_with_ops (api_env scripted_reply) ''PIA293'' example_question
                initial_state))) = 3 + 1 + 1"
    by code_simp
  from orchestrator_completion_calls[OF d] orchestrator_completion_calls[OF s]
  show ?thesis by (simp only: d n simp_thms)
qed

end
